theory Spec2Isabelle
  imports Main "HOL-Library.Sublist"
begin

section \<open>Time values of the host Date object\<close>

text \<open>
  A JavaScript \<^verbatim>\<open>Date\<close> holds a time value: milliseconds since the epoch, or \<^verbatim>\<open>NaN\<close>.
  A time value is an \<open>int option\<close> here, \<open>None\<close> standing for \<^verbatim>\<open>NaN\<close>. A clock reading
  (\<^verbatim>\<open>new Date()\<close>, \<^verbatim>\<open>Date.now()\<close>) is a number of milliseconds, an \<open>int\<close>.
  An ISO string (\<^verbatim>\<open>toISOString\<close>) is a faithful encoding of a time value that is not
  \<^verbatim>\<open>NaN\<close>, so the fields \<^verbatim>\<open>due_date\<close>, \<^verbatim>\<open>created_at\<close> and \<^verbatim>\<open>completed_at\<close> carry the
  number itself.

  The local time zone is the host's: \<open>LocalTZA t isUTC\<close> is the offset of local time
  from UTC in milliseconds, at the UTC time \<open>t\<close> when \<open>isUTC\<close> holds and at the local
  time \<open>t\<close> otherwise. Where the zone has daylight-saving time it varies with \<open>t\<close>.

  The host computes on doubles. A time value in range is an integer below \<open>2^53\<close> in
  magnitude, where that arithmetic is exact, and a sum that leaves this region is out
  of range for \<open>TimeClip\<close> whether rounded or not.
\<close>

definition msPerDay :: int where
  "msPerDay = 86400000"

definition Day :: "int \<Rightarrow> int" where
  "Day t = t div msPerDay"

definition TimeWithinDay :: "int \<Rightarrow> int" where
  "TimeWithinDay t = t mod msPerDay"

definition MakeDate :: "int \<Rightarrow> int \<Rightarrow> int" where
  "MakeDate day time = day * msPerDay + time"

text \<open>Day of the month (1..31) of a day number, by the proleptic Gregorian calendar.\<close>

definition DateFromDay :: "int \<Rightarrow> int" where
  "DateFromDay days =
     (let z = days + 719468;
          doe = z mod 146097;
          yoe = (doe - doe div 1460 + doe div 36524 - doe div 146096) div 365;
          doy = doe - (365 * yoe + yoe div 4 - yoe div 100);
          mp = (5 * doy + 2) div 153
      in doy - (153 * mp + 2) div 5 + 1)"

definition DateFromTime :: "int \<Rightarrow> int" where
  "DateFromTime t = DateFromDay (Day t)"

definition LocalTime :: "(int \<Rightarrow> bool \<Rightarrow> int) \<Rightarrow> int \<Rightarrow> int" where
  "LocalTime LocalTZA t = t + LocalTZA t True"

definition UTC :: "(int \<Rightarrow> bool \<Rightarrow> int) \<Rightarrow> int \<Rightarrow> int" where
  "UTC LocalTZA t = t - LocalTZA t False"

definition maxTime :: int where
  "maxTime = 8640000000000000"

text \<open>\<^verbatim>\<open>TimeClip\<close>: a time outside the range of \<^verbatim>\<open>Date\<close> becomes \<^verbatim>\<open>NaN\<close>.\<close>

definition TimeClip :: "int \<Rightarrow> int option" where
  "TimeClip time = (if \<bar>time\<bar> > maxTime then None else Some time)"

text \<open>\<^verbatim>\<open>new Date()\<close>, with the clock reading \<open>now\<close>.\<close>

definition new_Date :: "int \<Rightarrow> int option" where
  "new_Date now = Some now"

text \<open>\<^verbatim>\<open>d.getDate()\<close>: the day of the month in local time, \<^verbatim>\<open>NaN\<close> for an invalid date.\<close>

definition getDate :: "(int \<Rightarrow> bool \<Rightarrow> int) \<Rightarrow> int option \<Rightarrow> int option" where
  "getDate LocalTZA d =
     (case d of None \<Rightarrow> None | Some t \<Rightarrow> Some (DateFromTime (LocalTime LocalTZA t)))"

text \<open>
  \<^verbatim>\<open>d.setDate(dt)\<close>, returning the new time value of \<open>d\<close>: day \<open>dt\<close> of the current
  local month, counted from the first day of that month (so values past the end of the
  month run into the following ones), at the same local time of day, converted back to
  UTC and clipped. \<open>dt\<close> is the argument as an integer, \<open>None\<close> when it is not a finite
  number.
\<close>

definition setDate :: "(int \<Rightarrow> bool \<Rightarrow> int) \<Rightarrow> int option \<Rightarrow> int option \<Rightarrow> int option" where
  "setDate LocalTZA d dt =
     (case d of
        None \<Rightarrow> None
      | Some t \<Rightarrow>
          (case dt of
             None \<Rightarrow> None
           | Some n \<Rightarrow>
               (let lt = LocalTime LocalTZA t;
                    firstOfMonth = Day lt - (DateFromTime lt - 1)
                in TimeClip (UTC LocalTZA (MakeDate (firstOfMonth + n - 1) (TimeWithinDay lt))))))"

section \<open>Data model\<close>

datatype status = Active | Completed | Overdue

text \<open>
  A value that is a number or a string, as the \<^verbatim>\<open>due_days\<close> of the stream form is: the
  form starts with the number 3 and holds the text of the chosen option once the
  selector has been changed. \<open>Number (Some n)\<close> is the integer \<open>n\<close>, \<open>Number None\<close> a
  number that is not finite; fractions are not represented.
\<close>

datatype number_or_text = Number "int option" | Text string

text \<open>
  Optional string fields are strings, the empty string standing for an absent one: the
  code only ever tests them for truthiness or joins them.
\<close>

record stream_item =
  item_id :: int
  item_name :: string
  creator_name :: string
  creator_id :: string
  product_url :: string
  product_id :: string
  item_notes :: string
  creator_imvu_avatar :: string
  creator_ig_handle :: string
  creator_ig_shop_handle :: string

record stream =
  stream_id :: int
  agency_name :: string
  due_date :: "int option"
  status :: status
  priority :: string
  stream_type :: string
  stream_notes :: string
  created_at :: int
  completed_at :: "int option"
  items :: "stream_item list"
  user_id :: "string option"
  due_days :: "number_or_text option"
  model_ig_handle :: string

text \<open>The object submitted by the stream form (\<^verbatim>\<open>streamData\<close> of the handlers).\<close>

record stream_form =
  form_agency_name :: string
  form_due_days :: number_or_text
  form_priority :: string
  form_stream_type :: string
  form_notes :: string
  form_items :: "stream_item list"

datatype error =
  NotFound | NotConfigured | RemoteError | UnknownPlatform | ValidationError | TypeError
  | RangeError

text \<open>\<^verbatim>\<open>d.toISOString()\<close> throws for an invalid date.\<close>

definition toISOString :: "int option \<Rightarrow> error + int" where
  "toISOString d = (case d of None \<Rightarrow> Inl RangeError | Some t \<Rightarrow> Inr t)"

text \<open>The decimal text of a number, as string concatenation renders it.\<close>

function decimal :: "nat \<Rightarrow> string" where
  "decimal n =
     (if n < 10 then [''0123456789'' ! n]
      else decimal (n div 10) @ [''0123456789'' ! (n mod 10)])"
  by pat_completeness auto
termination
  by (relation "measure id") auto

declare decimal.simps [simp del]

definition Number_toString :: "int option \<Rightarrow> string" where
  "Number_toString v =
     (case v of
        None \<Rightarrow> ''NaN''
      | Some n \<Rightarrow> if n < 0 then CHR ''-'' # decimal (nat (- n)) else decimal (nat n))"

text \<open>
  \<^verbatim>\<open>date + v\<close> for the day number \<open>date\<close> that \<^verbatim>\<open>getDate\<close> returned: the sum of two
  numbers, or, when \<open>v\<close> is a string, the text of the day number followed by it.
\<close>

definition plus_value :: "int option \<Rightarrow> number_or_text \<Rightarrow> number_or_text" where
  "plus_value date v =
     (case v of
        Number n \<Rightarrow>
          Number (case date of
                    None \<Rightarrow> None
                  | Some d \<Rightarrow> (case n of None \<Rightarrow> None | Some k \<Rightarrow> Some (d + k)))
      | Text s \<Rightarrow> Text (Number_toString date @ s))"

text \<open>
  The integer an argument of \<^verbatim>\<open>setDate\<close> stands for, \<open>None\<close> when it is not a finite
  number. \<open>StringToNumber\<close> is the host's reading of a string as a number, cut to its
  integer part.
\<close>

definition ToNumber :: "(string \<Rightarrow> int option) \<Rightarrow> number_or_text \<Rightarrow> int option" where
  "ToNumber StringToNumber v = (case v of Number n \<Rightarrow> n | Text s \<Rightarrow> StringToNumber s)"

datatype toast = Toast_success string | Toast_error string

section \<open>Remote mirror client (dbHelpers)\<close>

record supabase_config =
  url :: string
  anonKey :: string

text \<open>\<^verbatim>\<open>createSupabaseClient\<close>: no client unless both settings are present.\<close>

definition createSupabaseClient :: "supabase_config \<Rightarrow> supabase_config option" where
  "createSupabaseClient config =
     (if url config = [] \<or> anonKey config = [] then None else Some config)"

datatype request =
  Select "string option" | Insert stream | Update int stream_form | Delete int

text \<open>
  The remote service: its \<^verbatim>\<open>streams\<close> table, whether the transport is down, which
  inserts it refuses given the current table, and the requests that reached the network.
\<close>

record backend =
  table :: "stream list"
  offline :: bool
  insert_rejects :: "stream list \<Rightarrow> stream \<Rightarrow> bool"
  requests :: "request list"

definition send :: "request \<Rightarrow> backend \<Rightarrow> backend" where
  "send r be = be\<lparr>requests := requests be @ [r]\<rparr>"

text \<open>Rows of one user, newest created first. Rows with the same stamp keep the order of
  the table; the service leaves their order open.\<close>

definition select_streams :: "string option \<Rightarrow> stream list \<Rightarrow> stream list" where
  "select_streams userId rows =
     sort_key (\<lambda>r. - created_at r) (filter (\<lambda>r. user_id r = userId) rows)"

text \<open>\<^verbatim>\<open>getStreams\<close> never throws: without a client, and on a transport error, it
  answers with the empty list.\<close>

definition getStreams ::
  "supabase_config option \<Rightarrow> string option \<Rightarrow> backend \<Rightarrow> (error + stream list) \<times> backend" where
  "getStreams supabase userId be =
     (case supabase of
        None \<Rightarrow> (Inr [], be)
      | Some _ \<Rightarrow>
          (if offline be then (Inr [], send (Select userId) be)
           else (Inr (select_streams userId (table be)), send (Select userId) be)))"

definition db_createStream ::
  "supabase_config option \<Rightarrow> stream \<Rightarrow> backend \<Rightarrow> (error + unit) \<times> backend" where
  "db_createStream supabase streamData be =
     (case supabase of
        None \<Rightarrow> (Inl NotConfigured, be)
      | Some _ \<Rightarrow>
          (if offline be \<or> insert_rejects be (table be) streamData
           then (Inl RemoteError, send (Insert streamData) be)
           else (Inr (), (send (Insert streamData) be)\<lparr>table := table be @ [streamData]\<rparr>)))"

text \<open>\<^verbatim>\<open>{ ...stream, ...streamData }\<close>: the form's fields overwrite the record's.\<close>

definition merge_form :: "stream \<Rightarrow> stream_form \<Rightarrow> stream" where
  "merge_form s f =
     s\<lparr>agency_name := form_agency_name f,
       due_days := Some (form_due_days f),
       priority := form_priority f,
       stream_type := form_stream_type f,
       stream_notes := form_notes f,
       items := form_items f\<rparr>"

definition db_updateStream ::
  "supabase_config option \<Rightarrow> int \<Rightarrow> stream_form \<Rightarrow> backend \<Rightarrow> (error + unit) \<times> backend" where
  "db_updateStream supabase i updates be =
     (case supabase of
        None \<Rightarrow> (Inl NotConfigured, be)
      | Some _ \<Rightarrow>
          (if offline be then (Inl RemoteError, send (Update i updates) be)
           else (Inr (),
                 (send (Update i updates) be)
                   \<lparr>table := map (\<lambda>r. if stream_id r = i then merge_form r updates else r)
                                 (table be)\<rparr>)))"

definition db_deleteStream ::
  "supabase_config option \<Rightarrow> int \<Rightarrow> backend \<Rightarrow> (error + unit) \<times> backend" where
  "db_deleteStream supabase i be =
     (case supabase of
        None \<Rightarrow> (Inl NotConfigured, be)
      | Some _ \<Rightarrow>
          (if offline be then (Inl RemoteError, send (Delete i) be)
           else (Inr (),
                 (send (Delete i) be)\<lparr>table := filter (\<lambda>r. stream_id r \<noteq> i) (table be)\<rparr>)))"

section \<open>Record store (the handlers of the index page)\<close>

text \<open>
  The page state the handlers read and write: the \<^verbatim>\<open>streams\<close> state, the
  \<^verbatim>\<open>aurelius-streams\<close> slot of localStorage (\<open>None\<close> while unset), whether a write to
  it throws, the signed-in user, the record being edited, the toasts shown so far, and
  the remote service.
\<close>

record page =
  streams :: "stream list"
  saved_streams :: "stream list option"
  quota_exceeded :: bool
  user :: "string option"
  editingStream :: "stream option"
  toasts :: "toast list"
  remote :: backend

text \<open>The sparkles sign that ends the success messages of the handlers (U+2728).\<close>

definition sparkles :: string where
  "sparkles = [CHR 0xE2, CHR 0x9C, CHR 0xA8]"

definition toast_show :: "toast \<Rightarrow> page \<Rightarrow> page" where
  "toast_show t p = p\<lparr>toasts := toasts p @ [t]\<rparr>"

text \<open>
  \<^verbatim>\<open>saveStreams\<close>, as run in the browser: the write to localStorage comes first, and when
  it throws, the error is caught and reported and the state is left as it was.
\<close>

definition saveStreams :: "stream list \<Rightarrow> page \<Rightarrow> page" where
  "saveStreams newStreams p =
     (if quota_exceeded p then toast_show (Toast_error ''Failed to save streams'') p
      else p\<lparr>saved_streams := Some newStreams, streams := newStreams\<rparr>)"

definition complete_one :: "int \<Rightarrow> int \<Rightarrow> stream \<Rightarrow> stream" where
  "complete_one now streamId s =
     (if stream_id s = streamId then s\<lparr>status := Completed, completed_at := Some now\<rparr> else s)"

text \<open>\<^verbatim>\<open>completeStream\<close>; \<open>now\<close> is the clock reading of \<^verbatim>\<open>new Date()\<close>.\<close>

definition completeStream :: "int \<Rightarrow> int \<Rightarrow> page \<Rightarrow> error + page" where
  "completeStream now streamId p =
     (let updatedStreams = map (complete_one now streamId) (streams p)
      in Inr (toast_show (Toast_success (''Stream completed successfully! '' @ sparkles))
                (saveStreams updatedStreams p)))"

text \<open>
  \<^verbatim>\<open>createStream\<close> reads the clock three times: \<open>t_due\<close> for the due date,
  \<open>t_id\<close> for the identifier, \<open>t_created\<close> for the creation stamp. The code performs
  no check on \<^verbatim>\<open>due_days\<close>. Building the new record throws when the due date has
  become invalid; nothing has been stored by then.
\<close>

definition newStream ::
  "(int \<Rightarrow> bool \<Rightarrow> int) \<Rightarrow> (string \<Rightarrow> int option) \<Rightarrow> int \<Rightarrow> int \<Rightarrow> int \<Rightarrow> stream_form
     \<Rightarrow> error + stream" where
  "newStream LocalTZA StringToNumber t_due t_id t_created streamData =
     (let dueDate = new_Date t_due;
          dueDate' = setDate LocalTZA dueDate
                       (ToNumber StringToNumber
                          (plus_value (getDate LocalTZA dueDate) (form_due_days streamData)))
      in case toISOString dueDate' of
           Inl e \<Rightarrow> Inl e
         | Inr due \<Rightarrow>
             (case toISOString (new_Date t_created) of
                Inl e \<Rightarrow> Inl e
              | Inr created \<Rightarrow>
                  Inr \<lparr>stream_id = t_id,
                       agency_name = form_agency_name streamData,
                       due_date = Some due,
                       status = Active,
                       priority = form_priority streamData,
                       stream_type = form_stream_type streamData,
                       stream_notes = form_notes streamData,
                       created_at = created,
                       completed_at = None,
                       items = form_items streamData,
                       user_id = None,
                       due_days = None,
                       model_ig_handle = []\<rparr>))"

text \<open>An error result of a handler is an exception thrown before any change of state.\<close>

definition createStream ::
  "supabase_config option \<Rightarrow> (int \<Rightarrow> bool \<Rightarrow> int) \<Rightarrow> (string \<Rightarrow> int option) \<Rightarrow> int \<Rightarrow> int \<Rightarrow> int
     \<Rightarrow> stream_form \<Rightarrow> page \<Rightarrow> error + page" where
  "createStream supabase LocalTZA StringToNumber t_due t_id t_created streamData p =
     (case newStream LocalTZA StringToNumber t_due t_id t_created streamData of
        Inl e \<Rightarrow> Inl e
      | Inr new \<Rightarrow>
          (let p1 = saveStreams (streams p @ [new]) p
           in if user p \<noteq> None \<and> supabase \<noteq> None
              then (case db_createStream supabase (new\<lparr>user_id := user p\<rparr>) (remote p1) of
                      (Inl e, be) \<Rightarrow>
                        Inr (toast_show
                               (Toast_error ''Saved locally, but failed to sync to cloud'')
                               (p1\<lparr>remote := be\<rparr>))
                    | (Inr u, be) \<Rightarrow>
                        Inr (toast_show
                               (Toast_success (''Stream created successfully! '' @ sparkles))
                               (p1\<lparr>remote := be\<rparr>)))
              else Inr (toast_show
                          (Toast_success (''Stream created successfully! '' @ sparkles)) p1)))"

definition update_one :: "stream option \<Rightarrow> stream_form \<Rightarrow> stream \<Rightarrow> stream" where
  "update_one editing streamData s =
     (case editing of
        None \<Rightarrow> s
      | Some e \<Rightarrow> if stream_id s = stream_id e then merge_form s streamData else s)"

definition updateStream :: "supabase_config option \<Rightarrow> stream_form \<Rightarrow> page \<Rightarrow> error + page" where
  "updateStream supabase streamData p =
     (let updatedStreams = map (update_one (editingStream p) streamData) (streams p);
          p1 = saveStreams updatedStreams p;
          p2 = (case editingStream p of
                  Some e \<Rightarrow>
                    (if user p \<noteq> None \<and> supabase \<noteq> None
                     then (case db_updateStream supabase (stream_id e) streamData (remote p1) of
                             (Inl err, be) \<Rightarrow>
                               toast_show
                                 (Toast_error ''Updated locally, but failed to sync to cloud'')
                                 (p1\<lparr>remote := be\<rparr>)
                           | (Inr u, be) \<Rightarrow> p1\<lparr>remote := be\<rparr>)
                     else p1)
                | None \<Rightarrow> p1)
      in Inr (toast_show (Toast_success (''Stream updated successfully! '' @ sparkles))
                (p2\<lparr>editingStream := None\<rparr>)))"

definition deleteStream :: "supabase_config option \<Rightarrow> int \<Rightarrow> page \<Rightarrow> error + page" where
  "deleteStream supabase streamId p =
     (let updatedStreams = filter (\<lambda>s. stream_id s \<noteq> streamId) (streams p);
          p1 = saveStreams updatedStreams p;
          p2 = (if user p \<noteq> None \<and> supabase \<noteq> None
                then (case db_deleteStream supabase streamId (remote p1) of
                        (Inl err, be) \<Rightarrow>
                          toast_show
                            (Toast_error ''Deleted locally, but failed to sync to cloud'')
                            (p1\<lparr>remote := be\<rparr>)
                      | (Inr u, be) \<Rightarrow> p1\<lparr>remote := be\<rparr>)
                else p1)
      in Inr (toast_show (Toast_success (''Stream deleted successfully! '' @ sparkles)) p2))"

section \<open>Reconciliation (syncLocalData, syncData)\<close>

text \<open>The upload loop of \<^verbatim>\<open>syncLocalData\<close>: a throwing \<^verbatim>\<open>createStream\<close> leaves it.\<close>

fun upload_new ::
  "supabase_config option \<Rightarrow> string option \<Rightarrow> int list \<Rightarrow> stream list \<Rightarrow> backend
     \<Rightarrow> (error + unit) \<times> backend" where
  "upload_new supabase userId dbStreamIds [] be = (Inr (), be)"
| "upload_new supabase userId dbStreamIds (s # rest) be =
     (if stream_id s \<notin> set dbStreamIds
      then (case db_createStream supabase (s\<lparr>user_id := userId\<rparr>) be of
              (Inl e, be') \<Rightarrow> (Inl e, be')
            | (Inr u, be') \<Rightarrow> upload_new supabase userId dbStreamIds rest be')
      else upload_new supabase userId dbStreamIds rest be)"

text \<open>
  \<^verbatim>\<open>syncLocalData\<close>: the first component is the error its \<^verbatim>\<open>catch\<close> block wrote to
  the console, if any; nothing is thrown to the caller.
\<close>

definition syncLocalData ::
  "supabase_config option \<Rightarrow> string option \<Rightarrow> stream list \<Rightarrow> backend \<Rightarrow> error option \<times> backend" where
  "syncLocalData supabase userId localStreams be =
     (case supabase of
        None \<Rightarrow> (None, be)
      | Some _ \<Rightarrow>
          (case getStreams supabase userId be of
             (Inl e, be1) \<Rightarrow> (Some e, be1)
           | (Inr dbStreams, be1) \<Rightarrow>
               (case upload_new supabase userId (map stream_id dbStreams) localStreams be1 of
                  (Inl e, be2) \<Rightarrow> (Some e, be2)
                | (Inr u, be2) \<Rightarrow> (None, be2))))"

text \<open>\<^verbatim>\<open>loadStreams\<close> of the index page, which \<^verbatim>\<open>onSync\<close> runs.\<close>

definition loadStreams :: "page \<Rightarrow> page" where
  "loadStreams p = (case saved_streams p of None \<Rightarrow> p | Some parsedStreams \<Rightarrow> p\<lparr>streams := parsedStreams\<rparr>)"

text \<open>
  \<^verbatim>\<open>syncData\<close> of the account manager; \<open>usr\<close> is its signed-in user and \<open>localStreams\<close>
  the records it read from localStorage when it opened.
\<close>

definition syncData ::
  "supabase_config option \<Rightarrow> string option \<Rightarrow> stream list \<Rightarrow> page \<Rightarrow> page" where
  "syncData supabase usr localStreams p =
     (if usr = None \<or> supabase = None then p
      else
        (let p1 = (if localStreams \<noteq> []
                   then (case syncLocalData supabase usr localStreams (remote p) of
                           (logged, be) \<Rightarrow>
                             toast_show (Toast_success ''Data synced successfully!'')
                               (p\<lparr>remote := be\<rparr>))
                   else p)
         in (case getStreams supabase usr (remote p1) of
               (Inl e, be2) \<Rightarrow> toast_show (Toast_error ''Failed to sync data'') (p1\<lparr>remote := be2\<rparr>)
             | (Inr dbStreams, be2) \<Rightarrow>
                 (if dbStreams \<noteq> []
                  then (if quota_exceeded p1
                        then toast_show (Toast_error ''Failed to sync data'') (p1\<lparr>remote := be2\<rparr>)
                        else loadStreams
                               (toast_show (Toast_success ''Data downloaded successfully!'')
                                  (p1\<lparr>remote := be2, saved_streams := Some dbStreams\<rparr>)))
                  else loadStreams (p1\<lparr>remote := be2\<rparr>)))))"

section \<open>String replacement of the host\<close>

text \<open>
  Strings are byte strings (well-formed UTF-8). Every placeholder searched for below
  is ASCII, and an ASCII byte never occurs inside a multi-byte sequence, so matching on
  bytes finds the same occurrences as matching on the host's code units.

  \<^verbatim>\<open>GetSubstitution\<close> expands a replacement string for a match without capture
  groups: \<^verbatim>\<open>$$\<close> is a dollar sign, \<^verbatim>\<open>$&\<close> the matched text, \<^verbatim>\<open>$`\<close> the text before
  the match, \<^verbatim>\<open>$'\<close> the text after it; any other character stands for itself.
\<close>

fun GetSubstitution :: "string \<Rightarrow> string \<Rightarrow> string \<Rightarrow> string \<Rightarrow> string" where
  "GetSubstitution matched passed rest_of [] = []"
| "GetSubstitution matched passed rest_of [c] = [c]"
| "GetSubstitution matched passed rest_of (c # d # r) =
     (if c = CHR ''$'' then
        (if d = CHR ''$'' then CHR ''$'' # GetSubstitution matched passed rest_of r
         else if d = CHR ''&'' then matched @ GetSubstitution matched passed rest_of r
         else if d = CHR 0x60 then passed @ GetSubstitution matched passed rest_of r
         else if d = CHR 0x27 then rest_of @ GetSubstitution matched passed rest_of r
         else c # GetSubstitution matched passed rest_of (d # r))
      else c # GetSubstitution matched passed rest_of (d # r))"

text \<open>
  \<^verbatim>\<open>s.replace(new RegExp(pat, 'g'), rep)\<close> for a pattern of literal characters: the
  matches are found from left to right without overlap, \<open>passed\<close> being the part of the
  subject already behind.
\<close>

function replace_from :: "string \<Rightarrow> string \<Rightarrow> string \<Rightarrow> string \<Rightarrow> string" where
  "replace_from pat rep passed [] = []"
| "replace_from pat rep passed (c # cs) =
     (if pat \<noteq> [] \<and> prefix pat (c # cs)
      then GetSubstitution pat passed (drop (length pat) (c # cs)) rep
           @ replace_from pat rep (passed @ pat) (drop (length pat) (c # cs))
      else c # replace_from pat rep (passed @ [c]) cs)"
  by pat_completeness auto
termination
  by (relation "measure (\<lambda>(pat, rep, passed, s). length s)") auto

text \<open>
  \<^verbatim>\<open>caption.replace(new RegExp(`{${key}}`, 'g'), value)\<close>. Every key of the source is
  an identifier, so the pattern is the literal text of the placeholder.
\<close>

definition placeholder :: "string \<Rightarrow> string" where
  "placeholder key = CHR ''{'' # key @ ''}''"

definition replace_var :: "string \<Rightarrow> string \<Rightarrow> string \<Rightarrow> string" where
  "replace_var key val caption = replace_from (placeholder key) val [] caption"

text \<open>\<^verbatim>\<open>Object.entries(variables).forEach(...)\<close>: one replacement after the other, in
  the order the object literal lists its keys.\<close>

definition apply_variables :: "(string \<times> string) list \<Rightarrow> string \<Rightarrow> string" where
  "apply_variables variables template =
     foldl (\<lambda>caption (key, val). replace_var key val caption) template variables"

text \<open>
  Case mapping is the host's, by the Unicode character tables (it can change the length
  of a string): \<^verbatim>\<open>toLowerCase\<close> and \<^verbatim>\<open>toUpperCase\<close> are given by the host.
\<close>

record case_mapping =
  toLowerCase :: "string \<Rightarrow> string"
  toUpperCase :: "string \<Rightarrow> string"

text \<open>
  The characters the class \<^verbatim>\<open>\s\<close> matches, each as its UTF-8 bytes: tab, line feed,
  vertical tab, form feed, carriage return, space, U+00A0, U+1680, U+2000 to U+200A,
  U+2028, U+2029, U+202F, U+205F, U+3000 and U+FEFF. In well-formed UTF-8 none of
  these byte sequences occurs except as the character itself.
\<close>

definition white_space :: "string list" where
  "white_space =
     [[CHR 0x09], [CHR 0x0A], [CHR 0x0B], [CHR 0x0C], [CHR 0x0D], [CHR 0x20],
      [CHR 0xC2, CHR 0xA0],
      [CHR 0xE1, CHR 0x9A, CHR 0x80],
      [CHR 0xE2, CHR 0x80, CHR 0x80], [CHR 0xE2, CHR 0x80, CHR 0x81],
      [CHR 0xE2, CHR 0x80, CHR 0x82], [CHR 0xE2, CHR 0x80, CHR 0x83],
      [CHR 0xE2, CHR 0x80, CHR 0x84], [CHR 0xE2, CHR 0x80, CHR 0x85],
      [CHR 0xE2, CHR 0x80, CHR 0x86], [CHR 0xE2, CHR 0x80, CHR 0x87],
      [CHR 0xE2, CHR 0x80, CHR 0x88], [CHR 0xE2, CHR 0x80, CHR 0x89],
      [CHR 0xE2, CHR 0x80, CHR 0x8A],
      [CHR 0xE2, CHR 0x80, CHR 0xA8], [CHR 0xE2, CHR 0x80, CHR 0xA9],
      [CHR 0xE2, CHR 0x80, CHR 0xAF],
      [CHR 0xE2, CHR 0x81, CHR 0x9F],
      [CHR 0xE3, CHR 0x80, CHR 0x80],
      [CHR 0xEF, CHR 0xBB, CHR 0xBF]]"

text \<open>The number of bytes of the white-space character a string starts with, 0 when it
  starts with none.\<close>

definition leading_space :: "string \<Rightarrow> nat" where
  "leading_space s =
     (case find (\<lambda>w. prefix w s) white_space of None \<Rightarrow> 0 | Some w \<Rightarrow> length w)"

text \<open>
  \<^verbatim>\<open>s.replace(/\s+/g, '_')\<close>: every maximal run of white space becomes one underscore.
  \<open>in_run\<close> tells that the preceding character was white space, \<open>skip\<close> counts the
  bytes still to pass of the white-space character being read.
\<close>

fun underscore_from :: "bool \<Rightarrow> nat \<Rightarrow> string \<Rightarrow> string" where
  "underscore_from in_run skip [] = []"
| "underscore_from in_run (Suc k) (c # cs) = underscore_from in_run k cs"
| "underscore_from in_run 0 (c # cs) =
     (case leading_space (c # cs) of
        0 \<Rightarrow> c # underscore_from False 0 cs
      | Suc k \<Rightarrow> (if in_run then [] else ''_'') @ underscore_from True k cs)"

definition underscore_spaces :: "string \<Rightarrow> string" where
  "underscore_spaces s = underscore_from False 0 s"

text \<open>\<^verbatim>\<open>xs.join(', ')\<close>\<close>

fun join_comma :: "string list \<Rightarrow> string" where
  "join_comma [] = []"
| "join_comma [x] = x"
| "join_comma (x # y # ys) = x @ '', '' @ join_comma (y # ys)"

text \<open>\<^verbatim>\<open>s || d\<close> on strings\<close>

definition or_default :: "string \<Rightarrow> string \<Rightarrow> string" where
  "or_default s d = (if s = [] then d else s)"

section \<open>Template engine (CaptionGenerator)\<close>

text \<open>
  The value of a property read \<^verbatim>\<open>obj[key]\<close> on a plain object whose own properties
  are strings: an own string, a member inherited from \<^verbatim>\<open>Object.prototype\<close> (which is
  not a string), or \<^verbatim>\<open>undefined\<close>.
\<close>

datatype js_value = Undefined | Str string | Inherited

definition object_prototype_keys :: "string list" where
  "object_prototype_keys =
     [''constructor'', ''__defineGetter__'', ''__defineSetter__'', ''hasOwnProperty'',
      ''__lookupGetter__'', ''__lookupSetter__'', ''isPrototypeOf'',
      ''propertyIsEnumerable'', ''toString'', ''valueOf'', ''__proto__'',
      ''toLocaleString'']"

definition obj_get :: "(string \<times> string) list \<Rightarrow> string \<Rightarrow> js_value" where
  "obj_get own key =
     (case map_of own key of
        Some v \<Rightarrow> Str v
      | None \<Rightarrow> if key \<in> set object_prototype_keys then Inherited else Undefined)"

definition truthy :: "js_value \<Rightarrow> bool" where
  "truthy v = (case v of Undefined \<Rightarrow> False | Str s \<Rightarrow> s \<noteq> [] | Inherited \<Rightarrow> True)"

text \<open>\<^verbatim>\<open>v || ''\<close>\<close>

definition or_empty :: "js_value \<Rightarrow> js_value" where
  "or_empty v = (if truthy v then v else Str [])"

record agency =
  agency_id :: int
  agency_title :: string
  templates :: "(string \<times> string) list"

definition fleur :: string where
  "fleur = [CHR 0xE2, CHR 0x9A, CHR 0x9C, CHR 0xEF, CHR 0xB8, CHR 0x8F]"

definition heart :: string where
  "heart = [CHR 0xE2, CHR 0x9D, CHR 0xA4, CHR 0xEF, CHR 0xB8, CHR 0x8F]"

definition nl :: string where
  "nl = [CHR 0x0A]"

definition apostrophe :: string where
  "apostrophe = [CHR 0x27]"

definition default_templates :: "(string \<times> string) list" where
  "default_templates =
     [(''imvu_feed'',
       fleur @ ''{agency_name}'' @ fleur @ '' present Shop Stream @'' @ ''{creator_imvu_avatar}''
       @ nl @ nl @ heart @ '' Product name(s): {item_names}''
       @ nl @ heart @ '' Product ID(s): {product_ids}''
       @ nl @ heart @ '' Shop ID: {creator_shop_id}''),
      (''ig_feed'',
       ''{agency_name} present Shop Stream Creator {creator_imvu_avatar} | @'' @ ''{creator_ig_handle}''
       @ nl @ nl @ ''#shop{creator_imvu_avatar}''
       @ nl @ nl @ heart @ '' Product name: {item_name}''
       @ nl @ heart @ '' Product ID: {product_id}''
       @ nl @ heart @ '' Shop ID: {creator_shop_id}''
       @ nl @ heart @ '' @'' @ ''{agency_ig_handle}''
       @ nl @ heart @ '' Model: @'' @ ''{model_ig_handle}''
       @ nl @ nl @ ''#imvu #creator #{agency_hashtag} #imvumodelagency #imvustreamer''
       @ '' #imvustreaming #imvumodel #imvumodels #imvucollaboration #imvufashion''
       @ '' #imvulifestyle #imvupictureperfect #imvuphoto #imvuinstagram #imvushop''
       @ '' #imvuoutfits #imvustyle #imvustudiobeta #imvubeauty #imvudiscover''
       @ '' #imvudiscoverfeed #imvuavi #welovecreativity''),
      (''request'',
       ''Hi @'' @ ''{creator_imvu_avatar}! I'' @ apostrophe
       @ ''d love to showcase {item_name} in my next stream. Product ID: {product_id}''),
      (''end_stream'',
       ''Thank you for watching! Don'' @ apostrophe
       @ ''t forget to check out {item_name} by @'' @ ''{creator_imvu_avatar} - {product_id}'')]"

definition getDefaultTemplate :: "string \<Rightarrow> js_value" where
  "getDefaultTemplate platform = or_empty (obj_get default_templates platform)"

text \<open>
  The template both generators start from. \<open>selectedAgency\<close> is the value of the agency
  selector: \<open>None\<close> for its empty default entry, \<open>Some n\<close> for the entry of the agency
  with identifier \<open>n\<close> (the decimal text that \<^verbatim>\<open>parseInt\<close> reads back).
\<close>

definition resolve_template :: "agency list \<Rightarrow> int option \<Rightarrow> string \<Rightarrow> js_value" where
  "resolve_template agencies selectedAgency selectedPlatform =
     (let template =
            (case selectedAgency of
               None \<Rightarrow> Str []
             | Some n \<Rightarrow>
                 (case find (\<lambda>a. agency_id a = n) agencies of
                    None \<Rightarrow> Str []
                  | Some a \<Rightarrow> or_empty (obj_get (templates a) selectedPlatform)))
      in if \<not> truthy template then getDefaultTemplate selectedPlatform else template)"

text \<open>
  \<open>toLocaleDateString\<close> is the host's locale-dependent rendering of a time value.
\<close>

definition due_date_text :: "(int \<Rightarrow> string) \<Rightarrow> stream \<Rightarrow> string" where
  "due_date_text toLocaleDateString streamData =
     (case due_date streamData of None \<Rightarrow> [] | Some d \<Rightarrow> toLocaleDateString d)"

definition item_variables ::
  "(int \<Rightarrow> string) \<Rightarrow> stream \<Rightarrow> stream_item \<Rightarrow> (string \<times> string) list" where
  "item_variables toLocaleDateString streamData item =
     [(''item_name'', or_default (item_name item) ''Item''),
      (''creator_name'', or_default (creator_name item) ''Creator''),
      (''creator_imvu_avatar'', or_default (creator_imvu_avatar item) ''Creator''),
      (''creator_ig_handle'', or_default (creator_ig_handle item) []),
      (''creator_ig_shop_handle'', or_default (creator_ig_shop_handle item) []),
      (''product_id'', or_default (product_id item) []),
      (''agency_name'', or_default (agency_name streamData) ''Agency''),
      (''stream_type'', or_default (stream_type streamData) ''showcase''),
      (''due_date'', due_date_text toLocaleDateString streamData)]"

text \<open>A template that is not a string has no \<^verbatim>\<open>replace\<close> method: the call throws.\<close>

definition generateCaptionForItem ::
  "(int \<Rightarrow> string) \<Rightarrow> agency list \<Rightarrow> int option \<Rightarrow> string \<Rightarrow> stream \<Rightarrow> stream_item
     \<Rightarrow> error + string" where
  "generateCaptionForItem toLocaleDateString agencies selectedAgency selectedPlatform
       streamData item =
     (case resolve_template agencies selectedAgency selectedPlatform of
        Str template \<Rightarrow>
          Inr (apply_variables (item_variables toLocaleDateString streamData item) template)
      | _ \<Rightarrow> Inl TypeError)"

definition first_or :: "stream_item list \<Rightarrow> (stream_item \<Rightarrow> string) \<Rightarrow> string \<Rightarrow> string" where
  "first_or its field d = (case its of [] \<Rightarrow> d | firstItem # _ \<Rightarrow> or_default (field firstItem) d)"

definition basicVariables ::
  "(int \<Rightarrow> string) \<Rightarrow> case_mapping \<Rightarrow> string \<Rightarrow> stream \<Rightarrow> (string \<times> string) list" where
  "basicVariables toLocaleDateString host selectedPlatform streamData =
     [(''agency_name'', or_default (agency_name streamData) ''Agency''),
      (''stream_type'', or_default (stream_type streamData) ''showcase''),
      (''due_date'', due_date_text toLocaleDateString streamData),
      (''creator_imvu_avatar'', first_or (items streamData) creator_imvu_avatar ''Creator''),
      (''creator_ig_handle'', first_or (items streamData) creator_ig_handle []),
      (''creator_shop_id'', first_or (items streamData) creator_id []),
      (''agency_ig_handle'',
         if agency_name streamData \<noteq> []
         then ''@'' @ underscore_spaces (toLowerCase host (agency_name streamData)) @ ''_agency''
         else ''@agency''),
      (''agency_hashtag'',
         if agency_name streamData \<noteq> []
         then underscore_spaces (toUpperCase host (agency_name streamData)) @ ''_MODELING_AGENCY''
         else ''AGENCY''),
      (''model_ig_handle'', or_default (model_ig_handle streamData) ''@model_handle'')]
     @ (if selectedPlatform = ''imvu_feed''
        then [(''item_names'', join_comma (map item_name (items streamData))),
              (''product_ids'', join_comma (map product_id (items streamData)))]
        else [(''item_name'', first_or (items streamData) item_name ''Item''),
              (''product_id'', first_or (items streamData) product_id [])])"

definition generateSingleCaptionForAllItems ::
  "(int \<Rightarrow> string) \<Rightarrow> case_mapping \<Rightarrow> agency list \<Rightarrow> int option \<Rightarrow> string \<Rightarrow> stream
     \<Rightarrow> error + js_value" where
  "generateSingleCaptionForAllItems toLocaleDateString host agencies selectedAgency
       selectedPlatform streamData =
     (let template = resolve_template agencies selectedAgency selectedPlatform
      in if selectedPlatform = ''imvu_feed'' \<or> selectedPlatform = ''ig_feed''
         then (case template of
                 Str t \<Rightarrow>
                   Inr (Str (apply_variables
                               (basicVariables toLocaleDateString host selectedPlatform
                                  streamData) t))
               | _ \<Rightarrow> Inl TypeError)
         else Inr template)"

datatype caption_key = All_items | Item_key int

type_synonym captions = "caption_key \<rightharpoonup> js_value"

text \<open>The loop over the items: the first failing item ends it.\<close>

fun caption_each ::
  "(stream_item \<Rightarrow> error + string) \<Rightarrow> stream_item list \<Rightarrow> captions \<Rightarrow> error + captions" where
  "caption_each gen [] captions = Inr captions"
| "caption_each gen (item # rest) captions =
     (case gen item of
        Inl e \<Rightarrow> Inl e
      | Inr caption \<Rightarrow> caption_each gen rest (captions(Item_key (item_id item) \<mapsto> Str caption)))"

text \<open>The body of the \<^verbatim>\<open>try\<close> block of \<^verbatim>\<open>generateCaptions\<close>.\<close>

definition compute_captions ::
  "(int \<Rightarrow> string) \<Rightarrow> case_mapping \<Rightarrow> agency list \<Rightarrow> int option \<Rightarrow> string \<Rightarrow> stream
     \<Rightarrow> error + captions" where
  "compute_captions toLocaleDateString host agencies selectedAgency selectedPlatform streamData =
     (if selectedPlatform = ''imvu_feed'' \<or> selectedPlatform = ''ig_feed''
      then (case generateSingleCaptionForAllItems toLocaleDateString host agencies selectedAgency
                   selectedPlatform streamData of
              Inl e \<Rightarrow> Inl e
            | Inr singleCaption \<Rightarrow> Inr [All_items \<mapsto> singleCaption])
      else caption_each
             (generateCaptionForItem toLocaleDateString agencies selectedAgency selectedPlatform
                streamData)
             (items streamData) Map.empty)"

text \<open>
  \<^verbatim>\<open>generateCaptions\<close>: the new value of \<^verbatim>\<open>generatedCaptions\<close> and the toasts shown.
  A failure inside is caught and reported; the previous captions then stay.
\<close>

definition generateCaptions ::
  "(int \<Rightarrow> string) \<Rightarrow> case_mapping \<Rightarrow> agency list \<Rightarrow> int option \<Rightarrow> string \<Rightarrow> stream option
     \<Rightarrow> captions \<Rightarrow> captions \<times> toast list" where
  "generateCaptions toLocaleDateString host agencies selectedAgency selectedPlatform streamData
       generatedCaptions =
     (case streamData of
        None \<Rightarrow> (generatedCaptions, [])
      | Some sd \<Rightarrow>
          (case compute_captions toLocaleDateString host agencies selectedAgency selectedPlatform
                  sd of
             Inl e \<Rightarrow> (generatedCaptions, [Toast_error ''Failed to generate captions''])
           | Inr c \<Rightarrow> (c, [])))"

section \<open>Properties stated below, and the values they are tried on\<close>

text \<open>Every record other than the one with identifier \<open>i\<close> is at its old position.\<close>

definition stay_in_place :: "int \<Rightarrow> stream list \<Rightarrow> stream list \<Rightarrow> bool" where
  "stay_in_place i old new = list_all2 (\<lambda>a b. stream_id a \<noteq> i \<longrightarrow> b = a) old new"

text \<open>The records other than the one with identifier \<open>i\<close>, in list order.\<close>

definition others :: "int \<Rightarrow> stream list \<Rightarrow> stream list" where
  "others i xs = filter (\<lambda>s. stream_id s \<noteq> i) xs"

definition gown :: stream_item where
  "gown = \<lparr>item_id = 1, item_name = ''Gown'', creator_name = ''Lira'', creator_id = [],
           product_url = [], product_id = [], item_notes = [], creator_imvu_avatar = [],
           creator_ig_handle = [], creator_ig_shop_handle = []\<rparr>"

definition form3 :: stream_form where
  "form3 = \<lparr>form_agency_name = ''Nova'', form_due_days = Number (Some 3), form_priority = ''medium'',
            form_stream_type = ''showcase'', form_notes = [], form_items = [gown]\<rparr>"

definition never_rejects :: "stream list \<Rightarrow> stream \<Rightarrow> bool" where
  "never_rejects rows r = False"

definition idle_backend :: backend where
  "idle_backend = \<lparr>table = [], offline = False, insert_rejects = never_rejects, requests = []\<rparr>"

text \<open>A record with identifier \<open>i\<close>, created at \<open>t\<close> and due three days later.\<close>

definition sample_stream :: "int \<Rightarrow> int \<Rightarrow> stream" where
  "sample_stream i t =
     \<lparr>stream_id = i, agency_name = ''Nova'', due_date = Some (t + 259200000), status = Active,
      priority = ''medium'', stream_type = ''showcase'', stream_notes = [], created_at = t,
      completed_at = None, items = [gown], user_id = None, due_days = None,
      model_ig_handle = []\<rparr>"

definition stream_a :: stream where
  "stream_a = sample_stream 1 1000"

definition stream_b :: stream where
  "stream_b = sample_stream 2 2000"

definition two_page :: page where
  "two_page = \<lparr>streams = [stream_a, stream_b], saved_streams = Some [stream_a, stream_b],
               quota_exceeded = False, user = None, editingStream = None, toasts = [],
               remote = idle_backend\<rparr>"

definition stream_z :: stream where
  "stream_z = sample_stream 7 7000"

text \<open>
  Hosts for the examples: a zone without offset, a zone that moves its clocks forward
  by one hour at the end of the first day, a reader of strings of decimal digits, and
  the case mapping of the ASCII letters.
\<close>

definition utc_zone :: "int \<Rightarrow> bool \<Rightarrow> int" where
  "utc_zone t isUTC = 0"


fun digits_value :: "int \<Rightarrow> string \<Rightarrow> int option" where
  "digits_value acc [] = Some acc"
| "digits_value acc (c # cs) =
     (if 48 \<le> (of_char c :: nat) \<and> (of_char c :: nat) \<le> 57
      then digits_value (10 * acc + int (of_char c - 48)) cs
      else None)"

definition digits_only :: "string \<Rightarrow> int option" where
  "digits_only s = digits_value 0 s"

definition ascii_lower :: "string \<Rightarrow> string" where
  "ascii_lower s =
     map (\<lambda>c. if 65 \<le> (of_char c :: nat) \<and> (of_char c :: nat) \<le> 90
               then char_of ((of_char c :: nat) + 32) else c) s"

definition ascii_upper :: "string \<Rightarrow> string" where
  "ascii_upper s =
     map (\<lambda>c. if 97 \<le> (of_char c :: nat) \<and> (of_char c :: nat) \<le> 122
               then char_of ((of_char c :: nat) - 32) else c) s"

definition ascii_case :: case_mapping where
  "ascii_case = \<lparr>toLowerCase = ascii_lower, toUpperCase = ascii_upper\<rparr>"

text \<open>
  The instant \<^verbatim>\<open>setDate\<close> arrives at from the reading \<open>t\<close> and \<open>n\<close> more days: the local
  time of the reading moved on by \<open>n\<close> days, taken back to UTC.
\<close>

definition days_later :: "(int \<Rightarrow> bool \<Rightarrow> int) \<Rightarrow> int \<Rightarrow> int \<Rightarrow> int" where
  "days_later LocalTZA t n = UTC LocalTZA (LocalTime LocalTZA t + n * msPerDay)"

definition some_client :: supabase_config where
  "some_client = \<lparr>url = ''https://db.example'', anonKey = ''key''\<rparr>"

definition no_client :: supabase_config where
  "no_client = \<lparr>url = [], anonKey = []\<rparr>"

text \<open>
  The records of the local set whose identifier is not among the fetched remote ones,
  each tagged with the owner.
\<close>

definition local_only :: "string option \<Rightarrow> stream list \<Rightarrow> stream list \<Rightarrow> stream list" where
  "local_only userId dbStreams localStreams =
     map (\<lambda>s. s\<lparr>user_id := userId\<rparr>)
       (filter (\<lambda>s. stream_id s \<notin> set (map stream_id dbStreams)) localStreams)"

text \<open>The remote service accepts these rows one after the other.\<close>

fun accepts_all :: "(stream list \<Rightarrow> stream \<Rightarrow> bool) \<Rightarrow> stream list \<Rightarrow> stream list \<Rightarrow> bool" where
  "accepts_all rej rows [] = True"
| "accepts_all rej rows (r # rs) = (\<not> rej rows r \<and> accepts_all rej (rows @ [r]) rs)"

text \<open>
  The upload of \<open>x\<close>, after the rows \<open>pre\<close>, is the first one to fail: the service is
  out of reach (then already the first upload fails), or it accepts \<open>pre\<close> and refuses
  \<open>x\<close>.
\<close>

definition first_refused :: "backend \<Rightarrow> stream list \<Rightarrow> stream \<Rightarrow> bool" where
  "first_refused be pre x =
     (if offline be then pre = []
      else accepts_all (insert_rejects be) (table be) pre
           \<and> insert_rejects be (table be @ pre) x)"

text \<open>What \<open>getStreams\<close> answers with a client.\<close>

definition fetched :: "string option \<Rightarrow> backend \<Rightarrow> stream list" where
  "fetched userId be = (if offline be then [] else select_streams userId (table be))"

text \<open>Values for the reconciliation examples: a mirror holding b and c, a mirror that
  refuses the record with identifier 1.\<close>

definition tag :: "string \<Rightarrow> stream \<Rightarrow> stream" where
  "tag u s = s\<lparr>user_id := Some u\<rparr>"

definition stream_c :: stream where
  "stream_c = sample_stream 3 3000"

definition mirror_bc :: backend where
  "mirror_bc = \<lparr>table = [tag ''u1'' stream_b, tag ''u1'' stream_c], offline = False,
                insert_rejects = never_rejects, requests = []\<rparr>"

definition page_ab :: page where
  "page_ab = two_page\<lparr>remote := mirror_bc\<rparr>"

definition rejects_first :: "stream list \<Rightarrow> stream \<Rightarrow> bool" where
  "rejects_first rows r = (stream_id r = 1)"

definition strict_mirror :: backend where
  "strict_mirror = \<lparr>table = [], offline = False, insert_rejects = rejects_first, requests = []\<rparr>"

definition page_strict :: page where
  "page_strict = two_page\<lparr>remote := strict_mirror\<rparr>"

text \<open>The template chosen by the selected agency, if it has one for the platform.\<close>

definition agency_template :: "agency list \<Rightarrow> int option \<Rightarrow> string \<Rightarrow> string option" where
  "agency_template agencies selectedAgency selectedPlatform =
     (case selectedAgency of
        None \<Rightarrow> None
      | Some n \<Rightarrow>
          (case find (\<lambda>a. agency_id a = n) agencies of
             None \<Rightarrow> None
           | Some a \<Rightarrow> map_of (templates a) selectedPlatform))"

text \<open>
  A template seen as literal text and placeholders. Literal text has no opening brace,
  a placeholder name no brace at all. A value is safe when it has neither an opening
  brace nor a dollar sign (which the replacement would read as a pattern).
\<close>

datatype piece = Lit string | Var string

fun piece_text :: "piece \<Rightarrow> string" where
  "piece_text (Lit s) = s"
| "piece_text (Var k) = placeholder k"

definition template_text :: "piece list \<Rightarrow> string" where
  "template_text ps = concat (map piece_text ps)"

fun well_formed :: "piece \<Rightarrow> bool" where
  "well_formed (Lit s) = (CHR ''{'' \<notin> set s)"
| "well_formed (Var k) = (CHR ''{'' \<notin> set k \<and> CHR ''}'' \<notin> set k)"

definition safe_value :: "string \<Rightarrow> bool" where
  "safe_value v = (CHR ''{'' \<notin> set v \<and> CHR ''$'' \<notin> set v)"

text \<open>What a piece stands for once the variables are filled in; a placeholder that is
  not among the variables stays as it is.\<close>

fun fill :: "(string \<times> string) list \<Rightarrow> piece \<Rightarrow> string" where
  "fill variables (Lit s) = s"
| "fill variables (Var k) = (case map_of variables k of Some v \<Rightarrow> v | None \<Rightarrow> placeholder k)"

text \<open>One replacement step, on pieces.\<close>

fun subst1 :: "string \<Rightarrow> string \<Rightarrow> piece \<Rightarrow> piece" where
  "subst1 k v (Lit s) = Lit s"
| "subst1 k v (Var n) = (if n = k then Lit v else Var n)"

text \<open>Values for the template examples.\<close>

definition plain_date :: "int \<Rightarrow> string" where
  "plain_date t = ''1/1/1970''"

definition nova :: agency where
  "nova = \<lparr>agency_id = 1, agency_title = ''Nova'',
           templates = [(''request'', ''{item_name} by {creator_name}''),
                        (''end_stream'', ''{stream_type}|{creator_shop_id}''),
                        (''imvu_feed'', ''Names: {item_names}''),
                        (''ig_feed'', ''Names: {item_names}'')]\<rparr>"

definition blank_item :: stream_item where
  "blank_item = gown\<lparr>item_id := 2, item_name := [], creator_name := []\<rparr>"

definition dollar_item :: stream_item where
  "dollar_item = gown\<lparr>item_name := ''$&''\<rparr>"

definition item_A :: stream_item where
  "item_A = gown\<lparr>item_id := 11, item_name := ''A'', product_id := ''101''\<rparr>"

definition item_B :: stream_item where
  "item_B = gown\<lparr>item_id := 12, item_name := ''B'', product_id := ''102''\<rparr>"

definition stream_AB :: stream where
  "stream_AB = stream_a\<lparr>items := [item_A, item_B]\<rparr>"

definition untyped_stream :: stream where
  "untyped_stream = stream_a\<lparr>stream_type := []\<rparr>"

definition by_line :: "piece list" where
  "by_line = [Var ''item_name'', Lit '' by '', Var ''creator_name'']"

definition names_line :: "piece list" where
  "names_line = [Lit ''Names: '', Var ''item_names'']"

text \<open>The four platform keys of the selector.\<close>

definition recognised_platforms :: "string list" where
  "recognised_platforms = [''imvu_feed'', ''ig_feed'', ''request'', ''end_stream'']"

text \<open>The initial \<^verbatim>\<open>generatedCaptions\<close>, and the key an item's caption is stored under.\<close>

definition no_captions :: captions where
  "no_captions = Map.empty"

definition entry_key :: "stream_item \<Rightarrow> caption_key" where
  "entry_key it = Item_key (item_id it)"

section \<open>Record store: order of the records\<close>

lemma MakeDate_Day: "MakeDate (Day t + n) (TimeWithinDay t) = t + n * msPerDay"
  by (simp add: MakeDate_def Day_def TimeWithinDay_def algebra_simps)

lemma setDate_getDate:
  "setDate LocalTZA (new_Date t) (Some (DateFromTime (LocalTime LocalTZA t) + n))
     = TimeClip (days_later LocalTZA t n)"
proof -
  let ?lt = "LocalTime LocalTZA t"
  have "Day ?lt - (DateFromTime ?lt - 1) + (DateFromTime ?lt + n) - 1 = Day ?lt + n"
    by simp
  then show ?thesis
    by (simp add: setDate_def new_Date_def Let_def days_later_def MakeDate_Day)
qed

lemma newStream_Number:
  assumes "form_due_days f = Number (Some n)"
  shows "newStream LocalTZA StringToNumber t1 t2 t3 f
     = (if \<bar>days_later LocalTZA t1 n\<bar> \<le> maxTime
        then Inr \<lparr>stream_id = t2, agency_name = form_agency_name f,
                  due_date = Some (days_later LocalTZA t1 n), status = Active,
                  priority = form_priority f, stream_type = form_stream_type f,
                  stream_notes = form_notes f, created_at = t3, completed_at = None,
                  items = form_items f, user_id = None, due_days = None,
                  model_ig_handle = []\<rparr>
        else Inl RangeError)"
proof -
  have "setDate LocalTZA (new_Date t1)
          (ToNumber StringToNumber (plus_value (getDate LocalTZA (new_Date t1)) (form_due_days f)))
      = TimeClip (days_later LocalTZA t1 n)"
    using assms setDate_getDate [of LocalTZA t1 n]
    by (simp add: ToNumber_def plus_value_def getDate_def new_Date_def)
  then show ?thesis
    by (simp add: newStream_def Let_def TimeClip_def toISOString_def new_Date_def)
qed


lemma saveStreams_streams:
  "streams (saveStreams new p) = (if quota_exceeded p then streams p else new)"
  by (simp add: saveStreams_def toast_show_def)

lemma stay_in_place_refl: "stay_in_place i xs xs"
  by (simp add: stay_in_place_def list_all2_same)

lemma stay_in_place_map:
  "(\<And>a. stream_id a \<noteq> i \<Longrightarrow> f a = a) \<Longrightarrow> stay_in_place i xs (map f xs)"
  by (simp add: stay_in_place_def list_all2_conv_all_nth)

lemma others_map:
  "(\<And>a. stream_id (f a) = stream_id a) \<Longrightarrow> (\<And>a. stream_id a \<noteq> i \<Longrightarrow> f a = a) \<Longrightarrow>
   others i (map f xs) = others i xs"
  by (induction xs) (auto simp: others_def)

lemma complete_streams:
  "\<exists>p'. completeStream now i p = Inr p'
     \<and> streams p' = (if quota_exceeded p then streams p
                     else map (complete_one now i) (streams p))
     \<and> saved_streams p' = (if quota_exceeded p then saved_streams p
                           else Some (map (complete_one now i) (streams p)))
     \<and> toasts p' = toasts p
           @ (if quota_exceeded p then [Toast_error ''Failed to save streams''] else [])
           @ [Toast_success (''Stream completed successfully! '' @ sparkles)]"
  by (simp add: completeStream_def Let_def toast_show_def saveStreams_def)

lemma update_streams:
  "\<exists>p'. updateStream sb f p = Inr p'
     \<and> streams p' = (if quota_exceeded p then streams p
                     else map (update_one (editingStream p) f) (streams p))
     \<and> saved_streams p' = (if quota_exceeded p then saved_streams p
                           else Some (map (update_one (editingStream p) f) (streams p)))
     \<and> last (toasts p') = Toast_success (''Stream updated successfully! '' @ sparkles)
     \<and> (if quota_exceeded p then Toast_error ''Failed to save streams'' \<in> set (toasts p')
         else True)"
  by (auto simp add: updateStream_def Let_def toast_show_def saveStreams_def
        split: option.splits prod.splits sum.splits)

lemma delete_streams:
  "\<exists>p'. deleteStream sb i p = Inr p'
     \<and> streams p' = (if quota_exceeded p then streams p
                     else filter (\<lambda>s. stream_id s \<noteq> i) (streams p))"
  by (auto simp add: deleteStream_def Let_def toast_show_def saveStreams_def
        split: option.splits prod.splits sum.splits)

lemma create_streams:
  "newStream LocalTZA StringToNumber t1 t2 t3 f = Inr r \<Longrightarrow>
   \<exists>p'. createStream sb LocalTZA StringToNumber t1 t2 t3 f p = Inr p'
     \<and> streams p' = (if quota_exceeded p then streams p else streams p @ [r])
     \<and> saved_streams p' = (if quota_exceeded p then saved_streams p
                           else Some (streams p @ [r]))"
  by (auto simp add: createStream_def Let_def toast_show_def saveStreams_def
        split: option.splits prod.splits sum.splits)

lemma create_throws:
  "newStream LocalTZA StringToNumber t1 t2 t3 f = Inl e \<Longrightarrow>
   createStream sb LocalTZA StringToNumber t1 t2 t3 f p = Inl e"
  by (simp add: createStream_def)

text \<open>
  C10. Every mutation of the record store keeps the order of the records it does not
  target: \<open>createStream\<close> appends the new record at the end of the list (when the
  write to storage fails the list stays as it is, and when building the record throws
  nothing is changed at all); \<open>completeStream\<close> and \<open>updateStream\<close> leave every other
  record at its position; after \<open>deleteStream\<close> the remaining records are the old ones
  in their old order.
\<close>

theorem store_keeps_order:
  "(case newStream LocalTZA StringToNumber t1 t2 t3 f of
      Inl e \<Rightarrow> createStream sb LocalTZA StringToNumber t1 t2 t3 f p = Inl e
    | Inr r \<Rightarrow>
        (\<exists>p'. createStream sb LocalTZA StringToNumber t1 t2 t3 f p = Inr p' \<and>
              streams p' = (if quota_exceeded p then streams p else streams p @ [r])))
   \<and> (\<exists>p'. completeStream now i p = Inr p' \<and> stay_in_place i (streams p) (streams p')
            \<and> others i (streams p') = others i (streams p))
   \<and> (\<exists>p'. updateStream sb f p = Inr p' \<and>
          (case editingStream p of
             None \<Rightarrow> streams p' = streams p
           | Some e \<Rightarrow> stay_in_place (stream_id e) (streams p) (streams p')
                       \<and> others (stream_id e) (streams p') = others (stream_id e) (streams p)))
   \<and> (\<exists>p'. deleteStream sb i p = Inr p' \<and> others i (streams p') = others i (streams p)
            \<and> (streams p' = streams p \<or> streams p' = others i (streams p)))"
proof (intro conjI)
  show "case newStream LocalTZA StringToNumber t1 t2 t3 f of
      Inl e \<Rightarrow> createStream sb LocalTZA StringToNumber t1 t2 t3 f p = Inl e
    | Inr r \<Rightarrow>
        (\<exists>p'. createStream sb LocalTZA StringToNumber t1 t2 t3 f p = Inr p' \<and>
              streams p' = (if quota_exceeded p then streams p else streams p @ [r]))"
  proof (cases "newStream LocalTZA StringToNumber t1 t2 t3 f")
    case (Inl e)
    then show ?thesis by (simp add: create_throws)
  next
    case (Inr r)
    from create_streams [OF this, of sb p] show ?thesis using Inr by auto
  qed
  show "\<exists>p'. completeStream now i p = Inr p' \<and> stay_in_place i (streams p) (streams p')
            \<and> others i (streams p') = others i (streams p)"
    using complete_streams [of now i p]
    by (auto simp: stay_in_place_refl complete_one_def intro!: stay_in_place_map others_map)
  show "\<exists>p'. deleteStream sb i p = Inr p' \<and> others i (streams p') = others i (streams p)
            \<and> (streams p' = streams p \<or> streams p' = others i (streams p))"
    using delete_streams [of sb i p] by (auto simp: others_def split: if_splits)
  obtain q where q: "updateStream sb f p = Inr q"
    and qs: "streams q = (if quota_exceeded p then streams p
                          else map (update_one (editingStream p) f) (streams p))"
    using update_streams [of sb f p] by blast
  have "case editingStream p of
          None \<Rightarrow> streams q = streams p
        | Some e \<Rightarrow> stay_in_place (stream_id e) (streams p) (streams q)
                    \<and> others (stream_id e) (streams q) = others (stream_id e) (streams p)"
  proof (cases "editingStream p")
    case None
    then show ?thesis using qs by (simp add: update_one_def map_idI)
  next
    case (Some e)
    then show ?thesis using qs
      by (auto simp: stay_in_place_refl update_one_def merge_form_def
               intro!: stay_in_place_map others_map)
  qed
  with q show "\<exists>p'. updateStream sb f p = Inr p' \<and>
          (case editingStream p of
             None \<Rightarrow> streams p' = streams p
           | Some e \<Rightarrow> stay_in_place (stream_id e) (streams p) (streams p')
                       \<and> others (stream_id e) (streams p') = others (stream_id e) (streams p))"
    by blast
qed

lemma newStream_c: "newStream utc_zone digits_only 3000 3 3000 form3 = Inr stream_c"
proof -
  have "form_due_days form3 = Number (Some 3)"
    by (simp add: form3_def)
  from newStream_Number [OF this, of utc_zone digits_only 3000 3 3000] show ?thesis
    by (simp add: days_later_def UTC_def LocalTime_def utc_zone_def msPerDay_def maxTime_def
          form3_def stream_c_def sample_stream_def)
qed

theorem store_keeps_order_witness:
  "stream_id stream_b \<noteq> 1
   \<and> streams (projr (createStream None utc_zone digits_only 3000 3 3000 form3 two_page))
       = [stream_a, stream_b, stream_c]
   \<and> streams (projr (completeStream 5000 1 two_page)) ! 1 = stream_b
   \<and> streams (projr (updateStream None form3 (two_page\<lparr>editingStream := Some stream_a\<rparr>))) ! 1
       = stream_b
   \<and> others 1 (streams (projr (deleteStream None 1 two_page))) = [stream_b]"
proof -
  let ?editing = "two_page\<lparr>editingStream := Some stream_a\<rparr>"
  have ids: "stream_id stream_a = 1" "stream_id stream_b = 2"
    by (simp_all add: stream_a_def stream_b_def sample_stream_def)
  have held: "streams two_page = [stream_a, stream_b]" "\<not> quota_exceeded two_page"
    "streams ?editing = [stream_a, stream_b]" "editingStream ?editing = Some stream_a"
    by (simp_all add: two_page_def)
  note all = store_keeps_order [where LocalTZA = utc_zone and StringToNumber = digits_only
      and ?t1.0 = 3000 and ?t2.0 = 3 and ?t3.0 = 3000 and f = form3 and sb = None
      and p = two_page and now = 5000 and i = 1]
  note edit = store_keeps_order [where LocalTZA = utc_zone and StringToNumber = digits_only
      and ?t1.0 = 3000 and ?t2.0 = 3 and ?t3.0 = 3000 and f = form3 and sb = None
      and p = ?editing and now = 5000 and i = 1]
  obtain p0 where a: "createStream None utc_zone digits_only 3000 3 3000 form3 two_page = Inr p0"
    and a1: "streams p0 = (if quota_exceeded two_page then streams two_page
                           else streams two_page @ [stream_c])"
    using all by (auto simp: newStream_c)
  obtain p1 where c: "completeStream 5000 1 two_page = Inr p1"
    and c1: "stay_in_place 1 (streams two_page) (streams p1)"
    using all by blast
  obtain p2 where d: "deleteStream None 1 two_page = Inr p2"
    and d1: "others 1 (streams p2) = others 1 (streams two_page)"
    using all by blast
  obtain p3 where u: "updateStream None form3 ?editing = Inr p3"
    and u1: "case editingStream ?editing of
               None \<Rightarrow> streams p3 = streams ?editing
             | Some e \<Rightarrow> stay_in_place (stream_id e) (streams ?editing) (streams p3)
                         \<and> others (stream_id e) (streams p3)
                             = others (stream_id e) (streams ?editing)"
    using edit by blast
  have "streams p0 = [stream_a, stream_b, stream_c]"
    using a1 held by simp
  moreover have "streams p1 ! 1 = stream_b"
    using c1 ids held by (auto simp: stay_in_place_def list_all2_Cons1)
  moreover have "stay_in_place 1 [stream_a, stream_b] (streams p3)"
    using u1 ids held by simp
  then have "streams p3 ! 1 = stream_b"
    using ids by (auto simp: stay_in_place_def list_all2_Cons1)
  moreover have "others 1 (streams p2) = [stream_b]"
    using d1 ids held by (simp add: others_def)
  ultimately show ?thesis using a c d u ids by simp
qed

section \<open>Record store: absent identifiers\<close>

text \<open>
  The statement that completing or updating a record whose identifier is not in the
  store fails with \<open>NotFound\<close> does not hold: with identifier 7 absent from a store of
  two records, both handlers return normally, leave the store as it was and show their
  success toast.
\<close>

theorem absent_id_counterexample:
  "7 \<notin> stream_id ` set (streams two_page)
   \<and> completeStream 5000 7 two_page
       = Inr (two_page\<lparr>toasts := [Toast_success (''Stream completed successfully! '' @ sparkles)]\<rparr>)
   \<and> completeStream 5000 7 two_page \<noteq> Inl NotFound
   \<and> updateStream None form3 (two_page\<lparr>editingStream := Some stream_z\<rparr>)
       = Inr (two_page\<lparr>toasts := [Toast_success (''Stream updated successfully! '' @ sparkles)]\<rparr>)
   \<and> updateStream None form3 (two_page\<lparr>editingStream := Some stream_z\<rparr>) \<noteq> Inl NotFound"
  by (simp add: completeStream_def updateStream_def two_page_def stream_a_def stream_b_def stream_z_def
        sample_stream_def saveStreams_def toast_show_def complete_one_def update_one_def Let_def)

text \<open>
  C8 (as amended). For an identifier that is not in the record set, \<open>completeStream\<close>
  and \<open>updateStream\<close> (whose target is the record being edited, if any) raise no error:
  they return normally and leave the list of records unchanged. When storage can be
  written they store that list; when it cannot, storage stays as it was and the failure
  is shown in a toast. Either way they end with their success toast.
\<close>

theorem absent_id_reports_success:
  "(i \<notin> stream_id ` set (streams p) \<longrightarrow>
      (\<exists>p'. completeStream now i p = Inr p' \<and> streams p' = streams p
            \<and> saved_streams p' = (if quota_exceeded p then saved_streams p
                                  else Some (streams p))
            \<and> toasts p' = toasts p
                  @ (if quota_exceeded p then [Toast_error ''Failed to save streams''] else [])
                  @ [Toast_success (''Stream completed successfully! '' @ sparkles)]))
   \<and> ((\<forall>e. editingStream p = Some e \<longrightarrow> stream_id e \<notin> stream_id ` set (streams p)) \<longrightarrow>
      (\<exists>p'. updateStream supabase streamData p = Inr p' \<and> streams p' = streams p
            \<and> saved_streams p' = (if quota_exceeded p then saved_streams p
                                  else Some (streams p))
            \<and> (if quota_exceeded p
                then Toast_error ''Failed to save streams'' \<in> set (toasts p') else True)
            \<and> last (toasts p') = Toast_success (''Stream updated successfully! '' @ sparkles)))"
proof (intro conjI impI)
  assume "i \<notin> stream_id ` set (streams p)"
  then have "map (complete_one now i) (streams p) = streams p"
    by (intro map_idI) (auto simp: complete_one_def)
  then show "\<exists>p'. completeStream now i p = Inr p' \<and> streams p' = streams p
            \<and> saved_streams p' = (if quota_exceeded p then saved_streams p
                                  else Some (streams p))
            \<and> toasts p' = toasts p
                  @ (if quota_exceeded p then [Toast_error ''Failed to save streams''] else [])
                  @ [Toast_success (''Stream completed successfully! '' @ sparkles)]"
    using complete_streams [of now i p] by auto
next
  assume a: "\<forall>e. editingStream p = Some e \<longrightarrow> stream_id e \<notin> stream_id ` set (streams p)"
  have "update_one (editingStream p) streamData x = x" if "x \<in> set (streams p)" for x
  proof (cases "editingStream p")
    case None
    then show ?thesis by (simp add: update_one_def)
  next
    case (Some e)
    with a have "stream_id e \<notin> stream_id ` set (streams p)" by simp
    with that have "stream_id x \<noteq> stream_id e" by (metis imageI)
    with Some show ?thesis by (simp add: update_one_def)
  qed
  then have "map (update_one (editingStream p) streamData) (streams p) = streams p"
    by (rule map_idI)
  then show "\<exists>p'. updateStream supabase streamData p = Inr p' \<and> streams p' = streams p
            \<and> saved_streams p' = (if quota_exceeded p then saved_streams p
                                  else Some (streams p))
            \<and> (if quota_exceeded p
                then Toast_error ''Failed to save streams'' \<in> set (toasts p') else True)
            \<and> last (toasts p') = Toast_success (''Stream updated successfully! '' @ sparkles)"
    using update_streams [of supabase streamData p] by auto
qed

theorem absent_id_reports_success_witness:
  "7 \<notin> stream_id ` set (streams two_page)
   \<and> streams (projr (completeStream 5000 7 two_page)) = streams two_page
   \<and> saved_streams (projr (completeStream 5000 7 two_page)) = Some (streams two_page)
   \<and> toasts (projr (completeStream 5000 7 two_page))
       = [Toast_success (''Stream completed successfully! '' @ sparkles)]
   \<and> streams (projr (updateStream None form3 (two_page\<lparr>editingStream := Some stream_z\<rparr>)))
       = streams two_page
   \<and> saved_streams (projr (updateStream None form3 (two_page\<lparr>editingStream := Some stream_z\<rparr>)))
       = Some (streams two_page)
   \<and> last (toasts (projr (updateStream None form3 (two_page\<lparr>editingStream := Some stream_z\<rparr>))))
       = Toast_success (''Stream updated successfully! '' @ sparkles)"
proof -
  let ?editing = "two_page\<lparr>editingStream := Some stream_z\<rparr>"
  have absent: "7 \<notin> stream_id ` set (streams two_page)"
    by (simp add: two_page_def stream_a_def stream_b_def sample_stream_def)
  have z: "stream_id stream_z = 7"
    by (simp add: stream_z_def sample_stream_def)
  have st: "streams ?editing = streams two_page" "\<not> quota_exceeded two_page"
    "\<not> quota_exceeded ?editing" "toasts two_page = []"
    by (simp_all add: two_page_def)
  have "\<exists>p'. completeStream 5000 7 two_page = Inr p' \<and> streams p' = streams two_page
            \<and> saved_streams p' = Some (streams two_page)
            \<and> toasts p' = [Toast_success (''Stream completed successfully! '' @ sparkles)]"
    using absent st absent_id_reports_success [of 7 two_page 5000 None form3] by simp
  then obtain p1 where "completeStream 5000 7 two_page = Inr p1" "streams p1 = streams two_page"
     "saved_streams p1 = Some (streams two_page)"
     "toasts p1 = [Toast_success (''Stream completed successfully! '' @ sparkles)]"
    by blast
  moreover
  have "\<exists>p'. updateStream None form3 ?editing = Inr p' \<and> streams p' = streams two_page
            \<and> saved_streams p' = Some (streams two_page)
            \<and> last (toasts p') = Toast_success (''Stream updated successfully! '' @ sparkles)"
    using absent z st absent_id_reports_success [of 7 ?editing 5000 None form3] by simp
  then obtain p2 where "updateStream None form3 ?editing = Inr p2"
     "streams p2 = streams two_page" "saved_streams p2 = Some (streams two_page)"
     "last (toasts p2) = Toast_success (''Stream updated successfully! '' @ sparkles)"
    by blast
  ultimately show ?thesis using absent by simp
qed

section \<open>Record store: the due date of a new record\<close>





text \<open>
  Once the selector of the form has been changed, \<^verbatim>\<open>due_days\<close> is the text of the
  option; the sum is then a concatenation. On the first of a month the option 5 gives
  day 15 of the month, and the record is due in fourteen days.
\<close>

lemma due_days_as_text:
  "plus_value (getDate utc_zone (new_Date 1000)) (Text ''5'') = Text ''15''
   \<and> map_sum id due_date
         (newStream utc_zone digits_only 1000 1 1001 (form3\<lparr>form_due_days := Text ''5''\<rparr>))
       = Inr (Some (1000 + 14 * 86400000))"
  by code_simp




section \<open>Remote client without configuration\<close>

text \<open>
  The statement that every operation of the remote client fails with \<open>NotConfigured\<close>
  when no endpoint is configured or no owner is signed in does not hold: without a
  client \<open>getStreams\<close> answers with the empty list, and with a client the requests are
  sent whether or not an owner is given.
\<close>

theorem unconfigured_counterexample:
  "createSupabaseClient no_client = None
   \<and> getStreams (createSupabaseClient no_client) (Some ''u1'') idle_backend = (Inr [], idle_backend)
   \<and> fst (getStreams (createSupabaseClient no_client) (Some ''u1'') idle_backend) \<noteq> Inl NotConfigured
   \<and> requests (snd (getStreams (createSupabaseClient some_client) None idle_backend)) = [Select None]
   \<and> requests (snd (db_deleteStream (createSupabaseClient some_client) 1 idle_backend)) = [Delete 1]"
  by (simp add: createSupabaseClient_def no_client_def some_client_def getStreams_def
        db_deleteStream_def idle_backend_def send_def)

text \<open>
  C7 (as amended). When the endpoint or its key is missing there is no client; then
  \<open>createStream\<close>, \<open>updateStream\<close> and \<open>deleteStream\<close> of the remote client fail with
  \<open>NotConfigured\<close> and \<open>getStreams\<close> returns the empty list, each without a request to
  the network. With a client, every operation sends its request, whatever the owner.
\<close>

theorem unconfigured_client:
  "(url config = [] \<or> anonKey config = [] \<longrightarrow>
       getStreams (createSupabaseClient config) userId be = (Inr [], be)
     \<and> db_createStream (createSupabaseClient config) row be = (Inl NotConfigured, be)
     \<and> db_updateStream (createSupabaseClient config) i updates be = (Inl NotConfigured, be)
     \<and> db_deleteStream (createSupabaseClient config) i be = (Inl NotConfigured, be))
   \<and> (url config \<noteq> [] \<and> anonKey config \<noteq> [] \<longrightarrow>
       requests (snd (getStreams (createSupabaseClient config) userId be))
         = requests be @ [Select userId]
     \<and> requests (snd (db_createStream (createSupabaseClient config) row be))
         = requests be @ [Insert row]
     \<and> requests (snd (db_updateStream (createSupabaseClient config) i updates be))
         = requests be @ [Update i updates]
     \<and> requests (snd (db_deleteStream (createSupabaseClient config) i be))
         = requests be @ [Delete i])"
  by (simp add: createSupabaseClient_def getStreams_def db_createStream_def db_updateStream_def
        db_deleteStream_def send_def)

theorem unconfigured_client_witness:
  "url no_client = []
   \<and> db_createStream (createSupabaseClient no_client) stream_a idle_backend
       = (Inl NotConfigured, idle_backend)
   \<and> url some_client \<noteq> [] \<and> anonKey some_client \<noteq> []
   \<and> requests (snd (db_createStream (createSupabaseClient some_client) stream_a idle_backend))
       = requests idle_backend @ [Insert stream_a]"
proof -
  have n: "url no_client = []" by (simp add: no_client_def)
  have s: "url some_client \<noteq> [] \<and> anonKey some_client \<noteq> []" by (simp add: some_client_def)
  show ?thesis
    using n s unconfigured_client [of no_client "Some ''u1''" idle_backend stream_a 1 form3]
      unconfigured_client [of some_client None idle_backend stream_a 1 form3]
    by simp
qed

section \<open>Reconciliation on sign-in\<close>

lemma getStreams_Some:
  "getStreams (Some c) userId be = (Inr (fetched userId be), send (Select userId) be)"
  by (simp add: getStreams_def fetched_def)

lemma upload_new_ok:
  "\<not> offline be \<Longrightarrow> accepts_all (insert_rejects be) (table be) (local_only userId dbStreams ls) \<Longrightarrow>
   upload_new (Some c) userId (map stream_id dbStreams) ls be
     = (Inr (), be\<lparr>table := table be @ local_only userId dbStreams ls,
                    requests := requests be @ map Insert (local_only userId dbStreams ls)\<rparr>)"
proof (induction ls arbitrary: be)
  case Nil
  then show ?case by (simp add: local_only_def)
next
  case (Cons s ls)
  show ?case
  proof (cases "stream_id s \<in> set (map stream_id dbStreams)")
    case True
    then have "local_only userId dbStreams (s # ls) = local_only userId dbStreams ls"
      by (simp add: local_only_def)
    with Cons True show ?thesis by simp
  next
    case False
    let ?r = "s\<lparr>user_id := userId\<rparr>"
    let ?be = "(send (Insert ?r) be)\<lparr>table := table be @ [?r]\<rparr>"
    from False have lo: "local_only userId dbStreams (s # ls) = ?r # local_only userId dbStreams ls"
      by (simp add: local_only_def)
    with Cons.prems have acc: "\<not> insert_rejects be (table be) ?r"
      and rest: "accepts_all (insert_rejects be) (table be @ [?r]) (local_only userId dbStreams ls)"
      by simp_all
    have "\<not> offline ?be" using Cons.prems by (simp add: send_def)
    moreover have "accepts_all (insert_rejects ?be) (table ?be) (local_only userId dbStreams ls)"
      using rest by (simp add: send_def)
    ultimately have "upload_new (Some c) userId (map stream_id dbStreams) ls ?be
        = (Inr (), ?be\<lparr>table := table ?be @ local_only userId dbStreams ls,
                       requests := requests ?be @ map Insert (local_only userId dbStreams ls)\<rparr>)"
      by (rule Cons.IH)
    then show ?thesis using False acc Cons.prems(1) lo
      by (simp add: db_createStream_def send_def)
  qed
qed

lemma upload_new_refused:
  assumes "local_only userId dbStreams ls = pre @ x # post"
    and "first_refused be pre x"
  shows "upload_new (Some c) userId (map stream_id dbStreams) ls be
     = (Inl RemoteError,
        be\<lparr>requests := requests be @ map Insert (pre @ [x]), table := table be @ pre\<rparr>)"
  using assms
proof (induction ls arbitrary: be pre)
  case Nil
  then show ?case by (simp add: local_only_def)
next
  case (Cons s ls)
  show ?case
  proof (cases "stream_id s \<in> set (map stream_id dbStreams)")
    case True
    then have "local_only userId dbStreams (s # ls) = local_only userId dbStreams ls"
      by (simp add: local_only_def)
    with Cons True show ?thesis by simp
  next
    case False
    let ?r = "s\<lparr>user_id := userId\<rparr>"
    let ?be = "(send (Insert ?r) be)\<lparr>table := table be @ [?r]\<rparr>"
    from False have lo: "local_only userId dbStreams (s # ls) = ?r # local_only userId dbStreams ls"
      by (simp add: local_only_def)
    show ?thesis
    proof (cases pre)
      case Nil
      with lo Cons.prems(1) have x: "x = ?r" by simp
      from Nil Cons.prems(2) have "offline be \<or> insert_rejects be (table be) x"
        by (simp add: first_refused_def split: if_splits)
      with False x Nil show ?thesis
        by (simp add: db_createStream_def send_def)
    next
      case (Cons r pre')
      with lo Cons.prems(1) have r: "r = ?r" and rest: "local_only userId dbStreams ls = pre' @ x # post"
        by simp_all
      from Cons Cons.prems(2) have on: "\<not> offline be"
        and acc: "\<not> insert_rejects be (table be) r"
        and more: "accepts_all (insert_rejects be) (table be @ [r]) pre'"
        and rej: "insert_rejects be (table be @ r # pre') x"
        by (simp_all add: first_refused_def split: if_splits)
      have "first_refused ?be pre' x"
        using on more rej r by (simp add: first_refused_def send_def)
      from Cons.IH [OF rest this]
      have "upload_new (Some c) userId (map stream_id dbStreams) ls ?be
         = (Inl RemoteError,
            ?be\<lparr>requests := requests ?be @ map Insert (pre' @ [x]), table := table ?be @ pre'\<rparr>)" .
      then show ?thesis using False on acc r Cons
        by (simp add: db_createStream_def send_def)
    qed
  qed
qed

lemma syncLocalData_ok:
  assumes "\<not> offline be"
    and "accepts_all (insert_rejects be) (table be)
           (local_only (Some u) (select_streams (Some u) (table be)) ls)"
  shows "syncLocalData (Some c) (Some u) ls be
     = (None, be\<lparr>table := table be @ local_only (Some u) (select_streams (Some u) (table be)) ls,
                  requests := requests be @ Select (Some u)
                     # map Insert (local_only (Some u) (select_streams (Some u) (table be)) ls)\<rparr>)"
proof -
  let ?be1 = "send (Select (Some u)) be"
  let ?R = "select_streams (Some u) (table be)"
  have "\<not> offline ?be1" using assms(1) by (simp add: send_def)
  moreover have "accepts_all (insert_rejects ?be1) (table ?be1) (local_only (Some u) ?R ls)"
    using assms(2) by (simp add: send_def)
  ultimately have "upload_new (Some c) (Some u) (map stream_id ?R) ls ?be1
     = (Inr (), ?be1\<lparr>table := table ?be1 @ local_only (Some u) ?R ls,
                    requests := requests ?be1 @ map Insert (local_only (Some u) ?R ls)\<rparr>)"
    by (rule upload_new_ok)
  then show ?thesis using assms(1)
    by (simp add: syncLocalData_def getStreams_Some fetched_def send_def)
qed

lemma syncData_ok:
  assumes "\<not> offline (remote p)" and "\<not> quota_exceeded p"
    and "accepts_all (insert_rejects (remote p)) (table (remote p))
           (local_only (Some u) (select_streams (Some u) (table (remote p))) ls)"
  shows "requests (remote (syncData (Some c) (Some u) ls p))
           = requests (remote p) @ (if ls = [] then [] else [Select (Some u)])
             @ map Insert (local_only (Some u) (select_streams (Some u) (table (remote p))) ls)
             @ [Select (Some u)]"
    and "table (remote (syncData (Some c) (Some u) ls p))
           = table (remote p) @ local_only (Some u) (select_streams (Some u) (table (remote p))) ls"
    and "saved_streams (syncData (Some c) (Some u) ls p)
           = (if select_streams (Some u) (table (remote (syncData (Some c) (Some u) ls p))) = []
              then saved_streams p
              else Some (select_streams (Some u) (table (remote (syncData (Some c) (Some u) ls p)))))"
    and "streams (syncData (Some c) (Some u) ls p)
           = (if select_streams (Some u) (table (remote (syncData (Some c) (Some u) ls p))) = []
              then (case saved_streams p of None \<Rightarrow> streams p | Some saved \<Rightarrow> saved)
              else select_streams (Some u) (table (remote (syncData (Some c) (Some u) ls p))))"
proof -
  let ?new = "local_only (Some u) (select_streams (Some u) (table (remote p))) ls"
  have empty: "local_only userId dbStreams [] = []" for userId dbStreams
    by (simp add: local_only_def)
  have sync: "syncLocalData (Some c) (Some u) ls (remote p)
     = (None, (remote p)\<lparr>table := table (remote p) @ ?new,
                  requests := requests (remote p) @ Select (Some u) # map Insert ?new\<rparr>)"
    using assms(1,3) by (rule syncLocalData_ok)
  show "requests (remote (syncData (Some c) (Some u) ls p))
           = requests (remote p) @ (if ls = [] then [] else [Select (Some u)])
             @ map Insert ?new @ [Select (Some u)]"
    using assms(1,2)
    by (simp add: empty syncData_def sync getStreams_Some fetched_def send_def toast_show_def
          loadStreams_def Let_def split: option.splits)
  show tbl: "table (remote (syncData (Some c) (Some u) ls p)) = table (remote p) @ ?new"
    using assms(1,2)
    by (simp add: empty syncData_def sync getStreams_Some fetched_def send_def toast_show_def
          loadStreams_def Let_def split: option.splits)
  show "saved_streams (syncData (Some c) (Some u) ls p)
           = (if select_streams (Some u) (table (remote (syncData (Some c) (Some u) ls p))) = []
              then saved_streams p
              else Some (select_streams (Some u) (table (remote (syncData (Some c) (Some u) ls p)))))"
    unfolding tbl using assms(1,2)
    by (simp add: empty syncData_def sync getStreams_Some fetched_def send_def toast_show_def
          loadStreams_def Let_def split: option.splits)
  show "streams (syncData (Some c) (Some u) ls p)
           = (if select_streams (Some u) (table (remote (syncData (Some c) (Some u) ls p))) = []
              then (case saved_streams p of None \<Rightarrow> streams p | Some saved \<Rightarrow> saved)
              else select_streams (Some u) (table (remote (syncData (Some c) (Some u) ls p))))"
    unfolding tbl using assms(1,2)
    by (simp add: empty syncData_def sync getStreams_Some fetched_def send_def toast_show_def
          loadStreams_def Let_def split: option.splits)
qed

text \<open>
  C1. With a client and a signed-in owner, the remote service reachable and accepting
  the inserts, and local storage writable, \<open>syncData\<close> fetches the owner's remote
  records (when there are local records at all), sends one insert for exactly each local
  record whose identifier is not among them, tagged with the owner, in list order, then
  fetches again; when that second answer is not empty it replaces the stored local set
  and the page's list with it.
\<close>

theorem reconcile_on_sign_in:
  assumes "\<not> offline (remote p)" and "\<not> quota_exceeded p"
    and "accepts_all (insert_rejects (remote p)) (table (remote p))
           (local_only (Some u) (select_streams (Some u) (table (remote p))) ls)"
  shows "requests (remote (syncData (Some c) (Some u) ls p))
           = requests (remote p) @ (if ls = [] then [] else [Select (Some u)])
             @ map Insert (local_only (Some u) (select_streams (Some u) (table (remote p))) ls)
             @ [Select (Some u)]
     \<and> table (remote (syncData (Some c) (Some u) ls p))
           = table (remote p) @ local_only (Some u) (select_streams (Some u) (table (remote p))) ls
     \<and> saved_streams (syncData (Some c) (Some u) ls p)
           = (if select_streams (Some u) (table (remote (syncData (Some c) (Some u) ls p))) = []
              then saved_streams p
              else Some (select_streams (Some u) (table (remote (syncData (Some c) (Some u) ls p)))))
     \<and> streams (syncData (Some c) (Some u) ls p)
           = (if select_streams (Some u) (table (remote (syncData (Some c) (Some u) ls p))) = []
              then (case saved_streams p of None \<Rightarrow> streams p | Some saved \<Rightarrow> saved)
              else select_streams (Some u) (table (remote (syncData (Some c) (Some u) ls p))))"
  using syncData_ok [OF assms, of c] by (intro conjI)

lemma tagged_created:
  "created_at (tag ''u1'' stream_a) = 1000" "created_at (tag ''u1'' stream_b) = 2000"
  "created_at (tag ''u1'' stream_c) = 3000"
  "user_id (tag ''u1'' stream_a) = Some ''u1''" "user_id (tag ''u1'' stream_b) = Some ''u1''"
  "user_id (tag ''u1'' stream_c) = Some ''u1''"
  "stream_id (tag ''u1'' stream_b) = 2" "stream_id (tag ''u1'' stream_c) = 3"
  "stream_id stream_a = 1" "stream_id stream_b = 2" "stream_id stream_c = 3"
  by (simp_all add: tag_def stream_a_def stream_b_def stream_c_def sample_stream_def)

lemma local_only_ab:
  "local_only (Some ''u1'') (select_streams (Some ''u1'') (table (remote page_ab))) [stream_a, stream_b]
     = [tag ''u1'' stream_a]"
  by (simp add: local_only_def select_streams_def page_ab_def mirror_bc_def tagged_created tag_def)

theorem reconcile_on_sign_in_witness:
  "requests (remote (syncData (Some some_client) (Some ''u1'') [stream_a, stream_b] page_ab))
     = [Select (Some ''u1''), Insert (tag ''u1'' stream_a), Select (Some ''u1'')]
   \<and> streams (syncData (Some some_client) (Some ''u1'') [stream_a, stream_b] page_ab)
     = [tag ''u1'' stream_c, tag ''u1'' stream_b, tag ''u1'' stream_a]
   \<and> saved_streams (syncData (Some some_client) (Some ''u1'') [stream_a, stream_b] page_ab)
     = Some [tag ''u1'' stream_c, tag ''u1'' stream_b, tag ''u1'' stream_a]"
proof -
  have 1: "\<not> offline (remote page_ab)" and 2: "\<not> quota_exceeded page_ab"
    by (simp_all add: page_ab_def mirror_bc_def two_page_def)
  have 3: "accepts_all (insert_rejects (remote page_ab)) (table (remote page_ab))
           (local_only (Some ''u1'') (select_streams (Some ''u1'') (table (remote page_ab)))
              [stream_a, stream_b])"
    unfolding local_only_ab by (simp add: page_ab_def mirror_bc_def never_rejects_def)
  have rq: "requests (remote page_ab) = []"
    and tb: "table (remote page_ab) = [tag ''u1'' stream_b, tag ''u1'' stream_c]"
    by (simp_all add: page_ab_def mirror_bc_def)
  have sel: "select_streams (Some ''u1'') [tag ''u1'' stream_b, tag ''u1'' stream_c, tag ''u1'' stream_a]
     = [tag ''u1'' stream_c, tag ''u1'' stream_b, tag ''u1'' stream_a]"
    by (simp add: select_streams_def tagged_created)
  show ?thesis
    using reconcile_on_sign_in [OF 1 2 3, of some_client]
    unfolding local_only_ab by (simp add: rq tb sel)
qed

text \<open>
  The statement that a failed upload does not stop the remaining ones does not hold:
  with two local-only records and a service that refuses the first, the second is never
  sent.
\<close>

theorem push_failure_counterexample:
  "stream_id stream_b \<notin> set (map stream_id (fetched (Some ''u1'') (remote page_strict)))
   \<and> fst (syncLocalData (Some some_client) (Some ''u1'') [stream_a, stream_b] (remote page_strict))
       = Some RemoteError
   \<and> requests (remote (syncData (Some some_client) (Some ''u1'') [stream_a, stream_b] page_strict))
       = [Select (Some ''u1''), Insert (tag ''u1'' stream_a), Select (Some ''u1'')]
   \<and> Insert (tag ''u1'' stream_b)
       \<notin> set (requests (remote (syncData (Some some_client) (Some ''u1'') [stream_a, stream_b]
                                   page_strict)))"
  by (simp add: syncData_def syncLocalData_def getStreams_def db_createStream_def send_def
        page_strict_def strict_mirror_def rejects_first_def two_page_def tagged_created
        fetched_def select_streams_def toast_show_def loadStreams_def Let_def tag_def
        stream_a_def stream_b_def sample_stream_def)

text \<open>
  C9 (as amended). When the upload of a local-only record is the first to fail (the
  records before it were accepted), \<open>syncLocalData\<close> catches the error and only logs
  it, and the push phase ends there: the records before the refused one are inserted,
  the refused one was sent, the records after it are never sent. \<open>syncData\<close> still
  shows the success toast of the push and fetches the remote set; when that is not
  empty and storage is writable it replaces the stored local set and the list of the
  page. When it is empty the page reloads what is stored, and when the write fails
  both stay as they were.
\<close>

theorem push_stops_at_first_failure:
  assumes "local_only (Some u) (fetched (Some u) (remote p)) ls = pre @ x # post"
    and "first_refused (remote p) pre x"
  shows "syncLocalData (Some c) (Some u) ls (remote p)
       = (Some RemoteError,
          (remote p)\<lparr>requests := requests (remote p) @ Select (Some u) # map Insert (pre @ [x]),
                      table := table (remote p) @ pre\<rparr>)
     \<and> requests (remote (syncData (Some c) (Some u) ls p))
         = requests (remote p) @ Select (Some u) # map Insert (pre @ [x]) @ [Select (Some u)]
     \<and> table (remote (syncData (Some c) (Some u) ls p)) = table (remote p) @ pre
     \<and> saved_streams (syncData (Some c) (Some u) ls p)
         = (if fetched (Some u) ((remote p)\<lparr>table := table (remote p) @ pre\<rparr>) = []
               \<or> quota_exceeded p
            then saved_streams p
            else Some (fetched (Some u) ((remote p)\<lparr>table := table (remote p) @ pre\<rparr>)))
     \<and> streams (syncData (Some c) (Some u) ls p)
         = (if fetched (Some u) ((remote p)\<lparr>table := table (remote p) @ pre\<rparr>) = []
            then (case saved_streams p of None \<Rightarrow> streams p | Some saved \<Rightarrow> saved)
            else if quota_exceeded p then streams p
            else fetched (Some u) ((remote p)\<lparr>table := table (remote p) @ pre\<rparr>))
     \<and> toasts (syncData (Some c) (Some u) ls p)
         = toasts p @ Toast_success ''Data synced successfully!''
           # (if fetched (Some u) ((remote p)\<lparr>table := table (remote p) @ pre\<rparr>) = [] then []
              else if quota_exceeded p then [Toast_error ''Failed to sync data'']
              else [Toast_success ''Data downloaded successfully!''])"
proof -
  let ?be1 = "send (Select (Some u)) (remote p)"
  let ?R = "fetched (Some u) (remote p)"
  let ?be2 = "(remote p)\<lparr>requests := requests (remote p) @ Select (Some u) # map Insert (pre @ [x]),
                      table := table (remote p) @ pre\<rparr>"
  have ne: "ls \<noteq> []"
    using assms(1) by (auto simp: local_only_def)
  have "first_refused ?be1 pre x"
    using assms(2) by (simp add: first_refused_def send_def)
  with assms(1) have "upload_new (Some c) (Some u) (map stream_id ?R) ls ?be1
     = (Inl RemoteError,
        ?be1\<lparr>requests := requests ?be1 @ map Insert (pre @ [x]), table := table ?be1 @ pre\<rparr>)"
    by (rule upload_new_refused)
  then have run: "syncLocalData (Some c) (Some u) ls (remote p) = (Some RemoteError, ?be2)"
    by (simp add: syncLocalData_def getStreams_Some send_def)
  have f2: "fetched (Some u) ?be2 = fetched (Some u) ((remote p)\<lparr>table := table (remote p) @ pre\<rparr>)"
    by (simp add: fetched_def)
  have "requests (remote (syncData (Some c) (Some u) ls p))
         = requests (remote p) @ Select (Some u) # map Insert (pre @ [x]) @ [Select (Some u)]"
    using ne
    by (simp add: syncData_def run getStreams_Some send_def toast_show_def loadStreams_def Let_def
          split: option.splits)
  moreover have "table (remote (syncData (Some c) (Some u) ls p)) = table (remote p) @ pre"
    using ne
    by (simp add: syncData_def run getStreams_Some send_def toast_show_def loadStreams_def Let_def
          split: option.splits)
  moreover have "saved_streams (syncData (Some c) (Some u) ls p)
         = (if fetched (Some u) ?be2 = [] \<or> quota_exceeded p
            then saved_streams p
            else Some (fetched (Some u) ?be2))"
    using ne
    by (simp add: syncData_def run getStreams_Some send_def toast_show_def loadStreams_def Let_def
          split: option.splits)
  moreover have "streams (syncData (Some c) (Some u) ls p)
         = (if fetched (Some u) ?be2 = []
            then (case saved_streams p of None \<Rightarrow> streams p | Some saved \<Rightarrow> saved)
            else if quota_exceeded p then streams p
            else fetched (Some u) ?be2)"
    using ne
    by (simp add: syncData_def run getStreams_Some send_def toast_show_def loadStreams_def Let_def
          split: option.splits)
  moreover have "toasts (syncData (Some c) (Some u) ls p)
         = toasts p @ Toast_success ''Data synced successfully!''
           # (if fetched (Some u) ?be2 = [] then []
              else if quota_exceeded p then [Toast_error ''Failed to sync data'']
              else [Toast_success ''Data downloaded successfully!''])"
    using ne
    by (simp add: syncData_def run getStreams_Some send_def toast_show_def loadStreams_def Let_def
          split: option.splits)
  ultimately show ?thesis
    using run unfolding f2 by (intro conjI)
qed

theorem push_stops_at_first_failure_witness:
  "local_only (Some ''u1'') (fetched (Some ''u1'') (remote page_strict)) [stream_a, stream_b]
     = [] @ tag ''u1'' stream_a # [tag ''u1'' stream_b]
   \<and> first_refused (remote page_strict) [] (tag ''u1'' stream_a)
   \<and> syncLocalData (Some some_client) (Some ''u1'') [stream_a, stream_b] (remote page_strict)
     = (Some RemoteError,
        strict_mirror\<lparr>requests := [Select (Some ''u1''), Insert (tag ''u1'' stream_a)]\<rparr>)
   \<and> requests (remote (syncData (Some some_client) (Some ''u1'') [stream_a, stream_b] page_strict))
     = [Select (Some ''u1''), Insert (tag ''u1'' stream_a), Select (Some ''u1'')]
   \<and> table (remote (syncData (Some some_client) (Some ''u1'') [stream_a, stream_b] page_strict)) = []
   \<and> streams (syncData (Some some_client) (Some ''u1'') [stream_a, stream_b] page_strict)
     = [stream_a, stream_b]
   \<and> toasts (syncData (Some some_client) (Some ''u1'') [stream_a, stream_b] page_strict)
     = [Toast_success ''Data synced successfully!'']"
proof -
  have rem: "remote page_strict = strict_mirror" "saved_streams page_strict = Some [stream_a, stream_b]"
    "toasts page_strict = []" "streams page_strict = [stream_a, stream_b]"
    by (simp_all add: page_strict_def two_page_def)
  have sm: "table strict_mirror = []" "requests strict_mirror = []" "\<not> offline strict_mirror"
    "insert_rejects strict_mirror = rejects_first"
    by (simp_all add: strict_mirror_def)
  have f0: "fetched (Some ''u1'') strict_mirror = []"
    "fetched (Some ''u1'') (strict_mirror\<lparr>table := []\<rparr>) = []"
    by (simp_all add: fetched_def select_streams_def sm)
  have lo: "local_only (Some ''u1'') (fetched (Some ''u1'') (remote page_strict)) [stream_a, stream_b]
     = [] @ tag ''u1'' stream_a # [tag ''u1'' stream_b]"
    by (simp add: rem f0 local_only_def tag_def)
  have fr: "first_refused (remote page_strict) [] (tag ''u1'' stream_a)"
    by (simp add: rem sm first_refused_def rejects_first_def tagged_created tag_def)
  have eq: "strict_mirror\<lparr>requests := [Select (Some ''u1''), Insert (tag ''u1'' stream_a)], table := []\<rparr>
      = strict_mirror\<lparr>requests := [Select (Some ''u1''), Insert (tag ''u1'' stream_a)]\<rparr>"
    by (simp add: strict_mirror_def)
  show ?thesis
    using push_stops_at_first_failure [OF lo fr, of some_client] lo fr
    by (simp add: rem sm f0 eq)
qed

section \<open>Replacing placeholders: the replacements one after the other fill the template\<close>

lemma GetSubstitution_plain:
  "CHR ''$'' \<notin> set rep \<Longrightarrow> GetSubstitution m b a rep = rep"
  by (induction m b a rep rule: GetSubstitution.induct) auto

lemma replace_from_skip:
  "CHR ''{'' \<notin> set s \<Longrightarrow>
   replace_from (placeholder k) rep passed (s @ rest)
     = s @ replace_from (placeholder k) rep (passed @ s) rest"
proof (induction s arbitrary: passed)
  case Nil
  then show ?case by simp
next
  case (Cons c s)
  then have "\<not> prefix (placeholder k) (c # s @ rest)"
    by (auto simp: placeholder_def)
  with Cons show ?case by simp
qed

lemma replace_from_hit:
  assumes "CHR ''$'' \<notin> set rep"
  shows "replace_from (placeholder k) rep passed (placeholder k @ rest)
     = rep @ replace_from (placeholder k) rep (passed @ placeholder k) rest"
proof -
  obtain cs where cs: "placeholder k @ rest = CHR ''{'' # cs"
    by (simp add: placeholder_def)
  have ne: "placeholder k \<noteq> []" by (simp add: placeholder_def)
  have "replace_from (placeholder k) rep passed (CHR ''{'' # cs)
      = (if placeholder k \<noteq> [] \<and> prefix (placeholder k) (CHR ''{'' # cs)
         then GetSubstitution (placeholder k) passed
                (drop (length (placeholder k)) (CHR ''{'' # cs)) rep
              @ replace_from (placeholder k) rep (passed @ placeholder k)
                  (drop (length (placeholder k)) (CHR ''{'' # cs))
         else CHR ''{'' # replace_from (placeholder k) rep (passed @ [CHR ''{'']) cs)"
    by (rule replace_from.simps(2))
  then have "replace_from (placeholder k) rep passed (placeholder k @ rest)
      = GetSubstitution (placeholder k) passed rest rep
        @ replace_from (placeholder k) rep (passed @ placeholder k) rest"
    unfolding cs [symmetric] using ne by simp
  then show ?thesis
    using assms by (simp add: GetSubstitution_plain)
qed

lemma same_up_to_first:
  assumes "x \<notin> set xs" "x \<notin> set xs'" "xs @ x # ys = xs' @ x # ys'"
  shows "xs = xs'"
proof -
  have "takeWhile (\<lambda>y. y \<noteq> x) (xs @ x # ys) = xs"
    using assms(1) by (auto simp: takeWhile_tail)
  moreover have "takeWhile (\<lambda>y. y \<noteq> x) (xs' @ x # ys') = xs'"
    using assms(2) by (auto simp: takeWhile_tail)
  ultimately show ?thesis using assms(3) by simp
qed

lemma no_other_prefix:
  assumes "n \<noteq> k" "CHR ''}'' \<notin> set n" "CHR ''}'' \<notin> set k"
  shows "\<not> prefix (placeholder k) (placeholder n @ rest)"
proof
  assume "prefix (placeholder k) (placeholder n @ rest)"
  then obtain zs where "placeholder n @ rest = placeholder k @ zs"
    by (auto simp: prefix_def)
  then have e: "n @ CHR ''}'' # rest = k @ CHR ''}'' # zs"
    by (simp add: placeholder_def)
  from assms(2,3) e have "n = k"
    by (rule same_up_to_first)
  with assms(1) show False by simp
qed

lemma replace_from_miss:
  assumes "n \<noteq> k" "CHR ''{'' \<notin> set n" "CHR ''}'' \<notin> set n" "CHR ''}'' \<notin> set k"
  shows "replace_from (placeholder k) rep passed (placeholder n @ rest)
     = placeholder n @ replace_from (placeholder k) rep (passed @ placeholder n) rest"
proof -
  have np: "\<not> prefix (placeholder k) (placeholder n @ rest)"
    using assms(1,3,4) by (rule no_other_prefix)
  have eq: "placeholder n @ rest = CHR ''{'' # ((n @ ''}'') @ rest)"
    by (simp add: placeholder_def)
  have "replace_from (placeholder k) rep passed (CHR ''{'' # ((n @ ''}'') @ rest))
      = CHR ''{'' # replace_from (placeholder k) rep (passed @ [CHR ''{'']) ((n @ ''}'') @ rest)"
    using np unfolding eq by simp
  also have "replace_from (placeholder k) rep (passed @ [CHR ''{'']) ((n @ ''}'') @ rest)
      = (n @ ''}'') @ replace_from (placeholder k) rep ((passed @ [CHR ''{'']) @ (n @ ''}'')) rest"
    using assms(2) by (intro replace_from_skip) simp
  finally show ?thesis
    unfolding eq by (simp add: placeholder_def)
qed

lemma replace_var_pieces:
  assumes "list_all well_formed ps" "CHR ''$'' \<notin> set v" "CHR ''}'' \<notin> set k"
  shows "replace_from (placeholder k) v passed (template_text ps)
     = template_text (map (subst1 k v) ps)"
  using assms(1)
proof (induction ps arbitrary: passed)
  case Nil
  then show ?case by (simp add: template_text_def)
next
  case (Cons p ps)
  then have wf: "well_formed p" and rest: "list_all well_formed ps" by simp_all
  have split: "template_text (p # ps) = piece_text p @ template_text ps"
    by (simp add: template_text_def)
  show ?case
  proof (cases p)
    case (Lit s)
    with wf have "CHR ''{'' \<notin> set s" by simp
    then show ?thesis
      using Lit Cons.IH [OF rest] by (simp add: split replace_from_skip template_text_def)
  next
    case (Var n)
    with wf have n: "CHR ''{'' \<notin> set n" "CHR ''}'' \<notin> set n" by simp_all
    show ?thesis
    proof (cases "n = k")
      case True
      then show ?thesis
        using Var Cons.IH [OF rest] assms(2)
        by (simp add: split replace_from_hit template_text_def)
    next
      case False
      then show ?thesis
        using Var Cons.IH [OF rest] n assms(3)
        by (simp add: split replace_from_miss template_text_def)
    qed
  qed
qed

lemma subst1_well_formed:
  "CHR ''{'' \<notin> set v \<Longrightarrow> well_formed p \<Longrightarrow> well_formed (subst1 k v p)"
  by (cases p) auto

lemma apply_variables_pieces:
  assumes "list_all well_formed ps"
    and "list_all (\<lambda>(k, v). CHR ''}'' \<notin> set k \<and> safe_value v) variables"
  shows "apply_variables variables (template_text ps)
     = template_text (foldl (\<lambda>qs (k, v). map (subst1 k v) qs) ps variables)"
  using assms
proof (induction variables arbitrary: ps)
  case Nil
  then show ?case by (simp add: apply_variables_def)
next
  case (Cons kv variables)
  obtain k v where kv: "kv = (k, v)" by (cases kv)
  with Cons.prems have k: "CHR ''}'' \<notin> set k" and v: "safe_value v"
    and rest: "list_all (\<lambda>(k, v). CHR ''}'' \<notin> set k \<and> safe_value v) variables"
    by simp_all
  have step: "replace_var k v (template_text ps) = template_text (map (subst1 k v) ps)"
    unfolding replace_var_def using Cons.prems(1) v k
    by (intro replace_var_pieces) (simp_all add: safe_value_def)
  have wf: "list_all well_formed (map (subst1 k v) ps)"
    using Cons.prems(1) v by (simp add: list_all_iff subst1_well_formed safe_value_def)
  have "apply_variables (kv # variables) (template_text ps)
      = apply_variables variables (replace_var k v (template_text ps))"
    by (simp add: apply_variables_def kv)
  also have "\<dots> = apply_variables variables (template_text (map (subst1 k v) ps))"
    by (simp only: step)
  also have "\<dots> = template_text (foldl (\<lambda>qs (k, v). map (subst1 k v) qs) (map (subst1 k v) ps) variables)"
    using wf rest by (rule Cons.IH)
  finally show ?case by (simp add: kv)
qed

lemma foldl_subst1_piece:
  "piece_text (foldl (\<lambda>q (k, v). subst1 k v q) p variables) = fill variables p"
proof (induction variables arbitrary: p)
  case Nil
  then show ?case by (cases p) simp_all
next
  case (Cons kv variables)
  obtain k v where kv: "kv = (k, v)" by (cases kv)
  have lit: "foldl (\<lambda>q (k, v). subst1 k v q) (Lit s) vs = Lit s" for s vs
    by (induction vs) auto
  show ?case
  proof (cases p)
    case (Lit s)
    then show ?thesis by (simp add: lit)
  next
    case (Var n)
    then show ?thesis using Cons.IH [of "Var n"] by (simp add: kv lit)
  qed
qed

lemma foldl_map_pieces:
  "foldl (\<lambda>qs (k, v). map (subst1 k v) qs) ps variables
     = map (\<lambda>p. foldl (\<lambda>q (k, v). subst1 k v q) p variables) ps"
  by (induction variables arbitrary: ps) (auto simp: comp_def)

lemma apply_variables_fill:
  assumes "list_all well_formed ps"
    and "list_all (\<lambda>(k, v). CHR ''}'' \<notin> set k \<and> safe_value v) variables"
  shows "apply_variables variables (template_text ps) = concat (map (fill variables) ps)"
  using apply_variables_pieces [OF assms]
  by (simp add: foldl_map_pieces template_text_def comp_def foldl_subst1_piece)

section \<open>Captions for one item and for a feed\<close>

lemma apply_variables_empty: "apply_variables variables [] = []"
  by (induction variables) (auto simp: apply_variables_def replace_var_def)

lemma keys_item_variables:
  "list_all (\<lambda>k. CHR ''}'' \<notin> set k) (map fst (item_variables fmt sd it))"
  by (simp add: item_variables_def)

lemma keys_basicVariables:
  "list_all (\<lambda>k. CHR ''}'' \<notin> set k) (map fst (basicVariables fmt host p sd))"
  by (simp add: basicVariables_def)

lemma keys_and_values:
  "list_all (\<lambda>k. CHR ''}'' \<notin> set k) (map fst vs) \<Longrightarrow> list_all safe_value (map snd vs) \<Longrightarrow>
   list_all (\<lambda>(k, v). CHR ''}'' \<notin> set k \<and> safe_value v) vs"
  by (induction vs) auto

text \<open>
  The statement that every recognised placeholder is replaced by its resolved value,
  empty values other than the three names giving the empty string, does not hold: an
  empty stream type is rendered as \<open>showcase\<close>, \<^verbatim>\<open>{creator_shop_id}\<close> is not replaced
  for an item, and a value \<^verbatim>\<open>$&\<close> is read as a replacement pattern.
\<close>

theorem render_item_counterexample:
  "generateCaptionForItem plain_date [nova] (Some 1) ''end_stream'' untyped_stream gown
     = Inr ''showcase|{creator_shop_id}''
   \<and> generateCaptionForItem plain_date [nova] (Some 1) ''request'' stream_a dollar_item
     = Inr ''{item_name} by Lira''"
  by (simp add: generateCaptionForItem_def resolve_template_def nova_def obj_get_def or_empty_def
        truthy_def item_variables_def or_default_def due_date_text_def untyped_stream_def
        stream_a_def sample_stream_def gown_def dollar_item_def plain_date_def
        apply_variables_def replace_var_def placeholder_def)

text \<open>
  C5 (as amended). For a template of literal text and placeholders, and values without
  an opening brace or a dollar sign, \<open>generateCaptionForItem\<close> replaces every occurrence
  of each of its nine variables by the resolved value and leaves every other
  placeholder (\<^verbatim>\<open>{creator_shop_id}\<close> among them) as it is. An empty item name resolves
  to \<open>Item\<close>, an empty creator name or avatar to \<open>Creator\<close>, an empty agency name to
  \<open>Agency\<close>, an empty stream type to \<open>showcase\<close>, an absent due date and every other
  empty value to the empty string.
\<close>

theorem render_item:
  assumes "resolve_template agencies selectedAgency selectedPlatform = Str (template_text ps)"
    and "list_all well_formed ps"
    and "list_all safe_value (map snd (item_variables fmt sd it))"
  shows "generateCaptionForItem fmt agencies selectedAgency selectedPlatform sd it
           = Inr (concat (map (fill (item_variables fmt sd it)) ps))
     \<and> map_of (item_variables fmt sd it) ''item_name''
           = Some (if item_name it = [] then ''Item'' else item_name it)
     \<and> map_of (item_variables fmt sd it) ''creator_name''
           = Some (if creator_name it = [] then ''Creator'' else creator_name it)
     \<and> map_of (item_variables fmt sd it) ''creator_imvu_avatar''
           = Some (if creator_imvu_avatar it = [] then ''Creator'' else creator_imvu_avatar it)
     \<and> map_of (item_variables fmt sd it) ''creator_ig_handle'' = Some (creator_ig_handle it)
     \<and> map_of (item_variables fmt sd it) ''creator_ig_shop_handle''
           = Some (creator_ig_shop_handle it)
     \<and> map_of (item_variables fmt sd it) ''product_id'' = Some (product_id it)
     \<and> map_of (item_variables fmt sd it) ''agency_name''
           = Some (if agency_name sd = [] then ''Agency'' else agency_name sd)
     \<and> map_of (item_variables fmt sd it) ''stream_type''
           = Some (if stream_type sd = [] then ''showcase'' else stream_type sd)
     \<and> map_of (item_variables fmt sd it) ''due_date''
           = Some (case due_date sd of None \<Rightarrow> [] | Some d \<Rightarrow> fmt d)
     \<and> map_of (item_variables fmt sd it) ''creator_shop_id'' = None"
proof -
  have "list_all (\<lambda>(k, v). CHR ''}'' \<notin> set k \<and> safe_value v) (item_variables fmt sd it)"
    using keys_item_variables assms(3) by (rule keys_and_values)
  with assms(2) have "apply_variables (item_variables fmt sd it) (template_text ps)
      = concat (map (fill (item_variables fmt sd it)) ps)"
    by (rule apply_variables_fill)
  then have "generateCaptionForItem fmt agencies selectedAgency selectedPlatform sd it
           = Inr (concat (map (fill (item_variables fmt sd it)) ps))"
    using assms(1) by (simp add: generateCaptionForItem_def)
  then show ?thesis
    by (simp add: item_variables_def or_default_def due_date_text_def)
qed

theorem render_item_witness:
  "generateCaptionForItem plain_date [nova] (Some 1) ''request'' stream_a gown = Inr ''Gown by Lira''
   \<and> generateCaptionForItem plain_date [nova] (Some 1) ''request'' stream_a blank_item
       = Inr ''Item by Creator''"
proof -
  have t: "resolve_template [nova] (Some 1) ''request'' = Str (template_text by_line)"
    by (simp add: resolve_template_def nova_def obj_get_def or_empty_def truthy_def by_line_def
          template_text_def placeholder_def)
  have wf: "list_all well_formed by_line"
    by (simp add: by_line_def)
  have s1: "list_all safe_value (map snd (item_variables plain_date stream_a gown))"
    by (simp add: item_variables_def or_default_def due_date_text_def stream_a_def sample_stream_def
          gown_def plain_date_def safe_value_def)
  have s2: "list_all safe_value (map snd (item_variables plain_date stream_a blank_item))"
    by (simp add: item_variables_def or_default_def due_date_text_def stream_a_def sample_stream_def
          gown_def blank_item_def plain_date_def safe_value_def)
  have "concat (map (fill (item_variables plain_date stream_a gown)) by_line) = ''Gown by Lira''"
    by (simp add: by_line_def item_variables_def or_default_def gown_def)
  moreover
  have "concat (map (fill (item_variables plain_date stream_a blank_item)) by_line) = ''Item by Creator''"
    by (simp add: by_line_def item_variables_def or_default_def gown_def blank_item_def)
  ultimately show ?thesis
    using render_item [OF t wf s1] render_item [OF t wf s2] by simp
qed

text \<open>
  The statement that both feed platforms replace \<^verbatim>\<open>{item_names}\<close> by the joined item
  names does not hold for \<^verbatim>\<open>ig_feed\<close>: the placeholder is left in the output.
\<close>

theorem render_feed_counterexample:
  "map item_name (items stream_AB) = [''A'', ''B'']
   \<and> generateSingleCaptionForAllItems plain_date ascii_case [nova] (Some 1) ''ig_feed'' stream_AB
       = Inr (Str ''Names: {item_names}'')"
  by (simp add: generateSingleCaptionForAllItems_def resolve_template_def nova_def obj_get_def
        or_empty_def truthy_def basicVariables_def or_default_def first_or_def due_date_text_def
        stream_AB_def stream_a_def sample_stream_def gown_def item_A_def item_B_def
        plain_date_def ascii_case_def
        apply_variables_def replace_var_def placeholder_def)

text \<open>
  C3 (as amended). For a feed template of literal text and placeholders, and values
  without an opening brace or a dollar sign, the single caption has every occurrence of
  each variable replaced. For \<^verbatim>\<open>imvu_feed\<close> the variables include \<^verbatim>\<open>item_names\<close> and
  \<^verbatim>\<open>product_ids\<close>, the comma-joined names and product ids of all items. For
  \<^verbatim>\<open>ig_feed\<close> they do not: there \<^verbatim>\<open>item_name\<close> and \<^verbatim>\<open>product_id\<close> of the first item are
  used, and the two aggregate placeholders stay as they are.
\<close>

theorem render_feed:
  assumes "selectedPlatform = ''imvu_feed'' \<or> selectedPlatform = ''ig_feed''"
    and "resolve_template agencies selectedAgency selectedPlatform = Str (template_text ps)"
    and "list_all well_formed ps"
    and "list_all safe_value (map snd (basicVariables fmt host selectedPlatform sd))"
  shows "generateSingleCaptionForAllItems fmt host agencies selectedAgency selectedPlatform sd
           = Inr (Str (concat (map (fill (basicVariables fmt host selectedPlatform sd)) ps)))
     \<and> (if selectedPlatform = ''imvu_feed''
         then map_of (basicVariables fmt host selectedPlatform sd) ''item_names''
                = Some (join_comma (map item_name (items sd)))
            \<and> map_of (basicVariables fmt host selectedPlatform sd) ''product_ids''
                = Some (join_comma (map product_id (items sd)))
         else map_of (basicVariables fmt host selectedPlatform sd) ''item_names'' = None
            \<and> map_of (basicVariables fmt host selectedPlatform sd) ''product_ids'' = None
            \<and> map_of (basicVariables fmt host selectedPlatform sd) ''item_name''
                = Some (case items sd of [] \<Rightarrow> ''Item''
                        | firstItem # rest \<Rightarrow>
                            if item_name firstItem = [] then ''Item'' else item_name firstItem)
            \<and> map_of (basicVariables fmt host selectedPlatform sd) ''product_id''
                = Some (case items sd of [] \<Rightarrow> [] | firstItem # rest \<Rightarrow> product_id firstItem))"
proof -
  have "list_all (\<lambda>(k, v). CHR ''}'' \<notin> set k \<and> safe_value v) (basicVariables fmt host selectedPlatform sd)"
    using keys_basicVariables assms(4) by (rule keys_and_values)
  with assms(3) have "apply_variables (basicVariables fmt host selectedPlatform sd) (template_text ps)
      = concat (map (fill (basicVariables fmt host selectedPlatform sd)) ps)"
    by (rule apply_variables_fill)
  then have "generateSingleCaptionForAllItems fmt host agencies selectedAgency selectedPlatform sd
           = Inr (Str (concat (map (fill (basicVariables fmt host selectedPlatform sd)) ps)))"
    using assms(1,2) by (simp add: generateSingleCaptionForAllItems_def)
  then show ?thesis
    by (simp add: basicVariables_def first_or_def or_default_def split: list.splits)
qed

theorem render_feed_witness:
  "generateSingleCaptionForAllItems plain_date ascii_case [nova] (Some 1) ''imvu_feed'' stream_AB
     = Inr (Str ''Names: A, B'')"
proof -
  have p: "''imvu_feed'' = ''imvu_feed'' \<or> ''imvu_feed'' = ''ig_feed''" by simp
  have t: "resolve_template [nova] (Some 1) ''imvu_feed'' = Str (template_text names_line)"
    by (simp add: resolve_template_def nova_def obj_get_def or_empty_def truthy_def names_line_def
          template_text_def placeholder_def)
  have wf: "list_all well_formed names_line"
    by (simp add: names_line_def)
  have s: "list_all safe_value (map snd (basicVariables plain_date ascii_case ''imvu_feed'' stream_AB))"
    by code_simp
  have "concat (map (fill (basicVariables plain_date ascii_case ''imvu_feed'' stream_AB)) names_line)
      = ''Names: A, B''"
    by (simp add: names_line_def basicVariables_def stream_AB_def item_A_def item_B_def gown_def)
  then show ?thesis
    using render_feed [OF p t wf s] by simp
qed

lemma resolve_template_Str:
  assumes "selectedPlatform \<notin> set object_prototype_keys"
  shows "\<exists>t. resolve_template agencies selectedAgency selectedPlatform = Str t"
proof -
  have d: "\<exists>t. getDefaultTemplate selectedPlatform = Str t"
    using assms by (simp add: getDefaultTemplate_def or_empty_def obj_get_def truthy_def
                      split: option.splits)
  have o: "\<exists>t. or_empty (obj_get own selectedPlatform) = Str t" for own
    using assms by (simp add: or_empty_def obj_get_def truthy_def split: option.splits)
  show ?thesis
  proof (cases selectedAgency)
    case None
    then show ?thesis using d by (simp add: resolve_template_def truthy_def)
  next
    case (Some n)
    show ?thesis
    proof (cases "find (\<lambda>a. agency_id a = n) agencies")
      case None
      with Some show ?thesis using d by (simp add: resolve_template_def truthy_def)
    next
      case (Some a)
      from o [of "templates a"] obtain t where t: "or_empty (obj_get (templates a) selectedPlatform) = Str t"
        by blast
      with Some \<open>selectedAgency = Some n\<close> show ?thesis using d
        by (cases "t = []") (auto simp: resolve_template_def truthy_def Let_def)
    qed
  qed
qed

lemma recognised_not_inherited:
  "p \<in> set recognised_platforms \<Longrightarrow> p \<notin> set object_prototype_keys"
  by (auto simp: recognised_platforms_def object_prototype_keys_def)

lemma generateCaptionForItem_items:
  "generateCaptionForItem fmt agencies selectedAgency selectedPlatform (sd\<lparr>items := siblings\<rparr>) it
     = generateCaptionForItem fmt agencies selectedAgency selectedPlatform sd it"
proof -
  have "item_variables fmt (sd\<lparr>items := siblings\<rparr>) it = item_variables fmt sd it"
    by (simp add: item_variables_def due_date_text_def)
  then show ?thesis
    unfolding generateCaptionForItem_def by (simp only:)
qed

lemma caption_each_total:
  assumes "\<And>it. it \<in> set its \<Longrightarrow> gen it = Inr (g it)"
  shows "\<exists>m'. caption_each gen its m = Inr m'
      \<and> dom m' = dom m \<union> entry_key ` set its
      \<and> (\<forall>k. k \<notin> entry_key ` set its \<longrightarrow> m' k = m k)
      \<and> (\<forall>it \<in> set its. \<exists>it' \<in> set its.
             entry_key it' = entry_key it \<and> m' (entry_key it) = Some (Str (g it')))"
  using assms
proof (induction its arbitrary: m)
  case Nil
  then show ?case by simp
next
  case (Cons a its)
  let ?m = "m(entry_key a \<mapsto> Str (g a))"
  have "\<And>it. it \<in> set its \<Longrightarrow> gen it = Inr (g it)" using Cons.prems by simp
  from Cons.IH [OF this, of ?m] obtain m' where
    r: "caption_each gen its ?m = Inr m'"
    and d: "dom m' = dom ?m \<union> entry_key ` set its"
    and o: "\<forall>k. k \<notin> entry_key ` set its \<longrightarrow> m' k = ?m k"
    and l: "\<forall>it \<in> set its. \<exists>it' \<in> set its.
             entry_key it' = entry_key it \<and> m' (entry_key it) = Some (Str (g it'))"
    by blast
  have run: "caption_each gen (a # its) m = Inr m'"
    using Cons.prems [of a] r by (simp add: entry_key_def)
  have "dom m' = dom m \<union> entry_key ` set (a # its)"
    using d by auto
  moreover have "\<forall>k. k \<notin> entry_key ` set (a # its) \<longrightarrow> m' k = m k"
    using o by auto
  moreover have "\<forall>it \<in> set (a # its). \<exists>it' \<in> set (a # its).
             entry_key it' = entry_key it \<and> m' (entry_key it) = Some (Str (g it'))"
  proof
    fix it assume it: "it \<in> set (a # its)"
    show "\<exists>it' \<in> set (a # its).
             entry_key it' = entry_key it \<and> m' (entry_key it) = Some (Str (g it'))"
    proof (cases "entry_key it \<in> entry_key ` set its")
      case True
      then obtain it0 where "it0 \<in> set its" "entry_key it0 = entry_key it" by auto
      with l obtain it' where "it' \<in> set its" "entry_key it' = entry_key it"
        "m' (entry_key it) = Some (Str (g it'))"
        by metis
      then show ?thesis by auto
    next
      case False
      with it have "it = a" by auto
      moreover from False o have "m' (entry_key it) = ?m (entry_key it)" by simp
      ultimately show ?thesis by auto
    qed
  qed
  ultimately show ?case using run by blast
qed

lemma entry_key_inj:
  assumes "distinct (map item_id its)" "it \<in> set its" "it' \<in> set its"
    "entry_key it' = entry_key it"
  shows "it' = it"
proof -
  have "inj_on item_id (set its)"
    using assms(1) by (simp add: distinct_map)
  moreover have "item_id it' = item_id it"
    using assms(4) by (simp add: entry_key_def)
  ultimately show ?thesis
    using assms(2,3) by (auto dest: inj_onD)
qed

lemma card_entry_keys:
  "distinct (map item_id its) \<Longrightarrow> card (entry_key ` set its) = length its"
proof -
  assume d: "distinct (map item_id its)"
  have "inj_on entry_key (set its)"
    using d by (auto simp: inj_on_def entry_key_def distinct_map)
  then have "card (entry_key ` set its) = card (set its)"
    by (rule card_image)
  also have "\<dots> = length its"
    using d by (simp add: distinct_card distinct_map)
  finally show ?thesis .
qed

section \<open>Captions per platform\<close>

lemma first_or_head: "first_or (it # rest) f d = or_default (f it) d"
  by (simp add: first_or_def)

lemma due_date_text_items: "due_date_text fmt (sd\<lparr>items := its\<rparr>) = due_date_text fmt sd"
  by (simp add: due_date_text_def)

lemma items_update_fields:
  "agency_name (sd\<lparr>items := its\<rparr>) = agency_name sd"
  "stream_type (sd\<lparr>items := its\<rparr>) = stream_type sd"
  "model_ig_handle (sd\<lparr>items := its\<rparr>) = model_ig_handle sd"
  "items (sd\<lparr>items := its\<rparr>) = its"
  by simp_all

lemma ig_is_not_imvu: "(''ig_feed'' = ''imvu_feed'') = False"
  by simp

lemma basicVariables_ig_first:
  "basicVariables fmt host ''ig_feed'' (sd\<lparr>items := it # rest\<rparr>)
     = basicVariables fmt host ''ig_feed'' (sd\<lparr>items := [it]\<rparr>)"
  unfolding basicVariables_def
  by (simp only: first_or_head due_date_text_items items_update_fields ig_is_not_imvu if_False)

lemma ig_feed_first_item:
  "generateCaptions fmt host agencies selectedAgency ''ig_feed'' (Some (sd\<lparr>items := it # rest\<rparr>)) old
     = generateCaptions fmt host agencies selectedAgency ''ig_feed'' (Some (sd\<lparr>items := [it]\<rparr>)) old"
proof -
  have "generateSingleCaptionForAllItems fmt host agencies selectedAgency ''ig_feed''
          (sd\<lparr>items := it # rest\<rparr>)
      = generateSingleCaptionForAllItems fmt host agencies selectedAgency ''ig_feed''
          (sd\<lparr>items := [it]\<rparr>)"
    by (simp only: generateSingleCaptionForAllItems_def basicVariables_ig_first [of fmt host "it" rest sd])
  then show ?thesis
    by (simp add: generateCaptions_def compute_captions_def)
qed

text \<open>
  The statement that the single caption of a feed platform covers all items of the
  record does not hold for \<^verbatim>\<open>ig_feed\<close>: the caption of a record with items A and B is
  the caption of the record with item A alone.
\<close>

theorem feed_covers_items_counterexample:
  "items stream_AB = [item_A, item_B]
   \<and> generateCaptions plain_date ascii_case [] None ''ig_feed'' (Some stream_AB) no_captions
     = generateCaptions plain_date ascii_case [] None ''ig_feed'' (Some (stream_AB\<lparr>items := [item_A]\<rparr>))
         no_captions"
  using ig_feed_first_item [where fmt = plain_date and host = ascii_case and agencies = "[]" and selectedAgency = None
      and sd = stream_a and it = item_A and rest = "[item_B]" and old = no_captions]
  by (simp add: stream_AB_def)

text \<open>
  C2 (as amended). For \<^verbatim>\<open>imvu_feed\<close> and \<^verbatim>\<open>ig_feed\<close>, \<open>generateCaptions\<close> produces exactly
  one string, for the record as a whole (for \<^verbatim>\<open>ig_feed\<close> it depends on the first item
  only). For \<^verbatim>\<open>request\<close> and \<^verbatim>\<open>end_stream\<close> it produces a mapping whose keys are the
  identifiers of the items; when these are distinct it has as many entries as there are
  items, and the entry of an item is that item's rendering, which does not depend on
  the other items of the record.
\<close>

theorem generate_for_platform:
  "(selectedPlatform = ''imvu_feed'' \<or> selectedPlatform = ''ig_feed'' \<longrightarrow>
      (\<exists>s. generateCaptions fmt host agencies selectedAgency selectedPlatform (Some sd) old
             = ([All_items \<mapsto> Str s], [])))
   \<and> generateCaptions fmt host agencies selectedAgency ''ig_feed''
         (Some (sd\<lparr>items := firstItem # rest\<rparr>)) old
       = generateCaptions fmt host agencies selectedAgency ''ig_feed''
           (Some (sd\<lparr>items := [firstItem]\<rparr>)) old
   \<and> (selectedPlatform = ''request'' \<or> selectedPlatform = ''end_stream'' \<longrightarrow>
      (\<exists>m. generateCaptions fmt host agencies selectedAgency selectedPlatform (Some sd) old = (m, [])
         \<and> dom m = entry_key ` set (items sd)
         \<and> (distinct (map item_id (items sd)) \<longrightarrow>
               card (dom m) = length (items sd)
             \<and> (\<forall>it \<in> set (items sd). \<forall>siblings. \<exists>c.
                   m (entry_key it) = Some (Str c)
                 \<and> generateCaptionForItem fmt agencies selectedAgency selectedPlatform
                       (sd\<lparr>items := siblings\<rparr>) it = Inr c))))"
proof (intro conjI impI)
  show "generateCaptions fmt host agencies selectedAgency ''ig_feed''
         (Some (sd\<lparr>items := firstItem # rest\<rparr>)) old
       = generateCaptions fmt host agencies selectedAgency ''ig_feed''
           (Some (sd\<lparr>items := [firstItem]\<rparr>)) old"
    by (rule ig_feed_first_item)
next
  assume feed: "selectedPlatform = ''imvu_feed'' \<or> selectedPlatform = ''ig_feed''"
  then have "selectedPlatform \<in> set recognised_platforms"
    by (auto simp: recognised_platforms_def)
  then have "selectedPlatform \<notin> set object_prototype_keys"
    by (rule recognised_not_inherited)
  then obtain t where "resolve_template agencies selectedAgency selectedPlatform = Str t"
    using resolve_template_Str by blast
  with feed show "\<exists>s. generateCaptions fmt host agencies selectedAgency selectedPlatform (Some sd) old
             = ([All_items \<mapsto> Str s], [])"
    by (auto simp: generateCaptions_def compute_captions_def generateSingleCaptionForAllItems_def)
next
  assume each: "selectedPlatform = ''request'' \<or> selectedPlatform = ''end_stream''"
  then have "selectedPlatform \<in> set recognised_platforms"
    by (auto simp: recognised_platforms_def)
  then have "selectedPlatform \<notin> set object_prototype_keys"
    by (rule recognised_not_inherited)
  then obtain t where t: "resolve_template agencies selectedAgency selectedPlatform = Str t"
    using resolve_template_Str by blast
  let ?gen = "generateCaptionForItem fmt agencies selectedAgency selectedPlatform sd"
  let ?g = "\<lambda>it. apply_variables (item_variables fmt sd it) t"
  have total: "\<And>it. it \<in> set (items sd) \<Longrightarrow> ?gen it = Inr (?g it)"
    using t by (simp add: generateCaptionForItem_def)
  from caption_each_total [of "items sd" ?gen ?g Map.empty, OF total] obtain m where
    r: "caption_each ?gen (items sd) Map.empty = Inr m"
    and d: "dom m = entry_key ` set (items sd)"
    and l: "\<forall>it \<in> set (items sd). \<exists>it' \<in> set (items sd).
              entry_key it' = entry_key it \<and> m (entry_key it) = Some (Str (?g it'))"
    by auto
  have run: "generateCaptions fmt host agencies selectedAgency selectedPlatform (Some sd) old = (m, [])"
    using each r by (auto simp: generateCaptions_def compute_captions_def)
  have "distinct (map item_id (items sd)) \<longrightarrow>
               card (dom m) = length (items sd)
             \<and> (\<forall>it \<in> set (items sd). \<forall>siblings. \<exists>c.
                   m (entry_key it) = Some (Str c)
                 \<and> generateCaptionForItem fmt agencies selectedAgency selectedPlatform
                       (sd\<lparr>items := siblings\<rparr>) it = Inr c)"
  proof (intro impI conjI ballI allI)
    assume dist: "distinct (map item_id (items sd))"
    show "card (dom m) = length (items sd)"
      using d dist by (simp add: card_entry_keys)
    fix it siblings
    assume it: "it \<in> set (items sd)"
    with l obtain it' where "it' \<in> set (items sd)" "entry_key it' = entry_key it"
      "m (entry_key it) = Some (Str (?g it'))"
      by blast
    with dist it have "m (entry_key it) = Some (Str (?g it))"
      using entry_key_inj [of "items sd" it it'] by simp
    moreover have "generateCaptionForItem fmt agencies selectedAgency selectedPlatform
                       (sd\<lparr>items := siblings\<rparr>) it = Inr (?g it)"
      using total [OF it] by (simp add: generateCaptionForItem_items)
    ultimately show "\<exists>c. m (entry_key it) = Some (Str c)
                 \<and> generateCaptionForItem fmt agencies selectedAgency selectedPlatform
                       (sd\<lparr>items := siblings\<rparr>) it = Inr c"
      by blast
  qed
  with run d show "\<exists>m. generateCaptions fmt host agencies selectedAgency selectedPlatform (Some sd) old = (m, [])
         \<and> dom m = entry_key ` set (items sd)
         \<and> (distinct (map item_id (items sd)) \<longrightarrow>
               card (dom m) = length (items sd)
             \<and> (\<forall>it \<in> set (items sd). \<forall>siblings. \<exists>c.
                   m (entry_key it) = Some (Str c)
                 \<and> generateCaptionForItem fmt agencies selectedAgency selectedPlatform
                       (sd\<lparr>items := siblings\<rparr>) it = Inr c))"
    by blast
qed

theorem generate_for_platform_witness:
  "card (dom (fst (generateCaptions plain_date ascii_case [nova] (Some 1) ''request'' (Some stream_AB)
                     no_captions))) = 2
   \<and> fst (generateCaptions plain_date ascii_case [nova] (Some 1) ''request'' (Some stream_AB) no_captions)
        (entry_key item_A) = Some (Str ''A by Lira'')
   \<and> fst (generateCaptions plain_date ascii_case [nova] (Some 1) ''request'' (Some stream_AB) no_captions)
        (entry_key item_B) = Some (Str ''B by Lira'')
   \<and> fst (generateCaptions plain_date ascii_case [nova] (Some 1) ''imvu_feed'' (Some stream_AB) no_captions)
        All_items = Some (Str ''Names: A, B'')"
proof -
  have its: "items stream_AB = [item_A, item_B]"
    by (simp add: stream_AB_def)
  have dist: "distinct (map item_id (items stream_AB))"
    by (simp add: its item_A_def item_B_def)
  have a: "generateCaptionForItem plain_date [nova] (Some 1) ''request'' stream_AB item_A
             = Inr ''A by Lira''"
    by (simp add: generateCaptionForItem_def resolve_template_def nova_def obj_get_def or_empty_def
        truthy_def item_variables_def or_default_def due_date_text_def stream_AB_def
        stream_a_def sample_stream_def gown_def item_A_def plain_date_def
        apply_variables_def replace_var_def placeholder_def)
  have b: "generateCaptionForItem plain_date [nova] (Some 1) ''request'' stream_AB item_B
             = Inr ''B by Lira''"
    by (simp add: generateCaptionForItem_def resolve_template_def nova_def obj_get_def or_empty_def
        truthy_def item_variables_def or_default_def due_date_text_def stream_AB_def
        stream_a_def sample_stream_def gown_def item_B_def plain_date_def
        apply_variables_def replace_var_def placeholder_def)
  have f: "generateSingleCaptionForAllItems plain_date ascii_case [nova] (Some 1) ''imvu_feed'' stream_AB
     = Inr (Str ''Names: A, B'')"
    by (simp add: generateSingleCaptionForAllItems_def resolve_template_def nova_def obj_get_def
        or_empty_def truthy_def basicVariables_def or_default_def first_or_def due_date_text_def
        stream_AB_def stream_a_def sample_stream_def gown_def item_A_def item_B_def
        plain_date_def ascii_case_def
        apply_variables_def replace_var_def placeholder_def)
  have feed: "fst (generateCaptions plain_date ascii_case [nova] (Some 1) ''imvu_feed'' (Some stream_AB) no_captions)
        All_items = Some (Str ''Names: A, B'')"
    by (simp add: generateCaptions_def compute_captions_def f)
  from generate_for_platform [where selectedPlatform = "''request''" and fmt = plain_date
      and host = ascii_case
      and agencies = "[nova]" and selectedAgency = "Some 1" and sd = stream_AB
      and old = no_captions and firstItem = item_A and rest = "[]"]
  obtain m where
    run: "generateCaptions plain_date ascii_case [nova] (Some 1) ''request'' (Some stream_AB) no_captions = (m, [])"
    and ent: "distinct (map item_id (items stream_AB)) \<longrightarrow>
               card (dom m) = length (items stream_AB)
             \<and> (\<forall>it \<in> set (items stream_AB). \<forall>siblings. \<exists>c.
                   m (entry_key it) = Some (Str c)
                 \<and> generateCaptionForItem plain_date [nova] (Some 1) ''request''
                       (stream_AB\<lparr>items := siblings\<rparr>) it = Inr c)"
    by auto
  from ent dist have card: "card (dom m) = 2"
    by (simp add: its)
  from ent dist its obtain c where "m (entry_key item_A) = Some (Str c)"
    "generateCaptionForItem plain_date [nova] (Some 1) ''request''
        (stream_AB\<lparr>items := items stream_AB\<rparr>) item_A = Inr c"
    by force
  with a have ea: "m (entry_key item_A) = Some (Str ''A by Lira'')" by simp
  from ent dist its obtain c where "m (entry_key item_B) = Some (Str c)"
    "generateCaptionForItem plain_date [nova] (Some 1) ''request''
        (stream_AB\<lparr>items := items stream_AB\<rparr>) item_B = Inr c"
    by force
  with b have eb: "m (entry_key item_B) = Some (Str ''B by Lira'')" by simp
  show ?thesis
    using run card ea eb feed by simp
qed

text \<open>
  The statement that a platform key outside the four fails with \<open>UnknownPlatform\<close> does
  not hold: for \<^verbatim>\<open>tiktok\<close> the default template is the empty string and the render
  call succeeds, with an empty caption for each item.
\<close>

theorem unknown_platform_counterexample:
  "''tiktok'' \<notin> set recognised_platforms
   \<and> getDefaultTemplate ''tiktok'' = Str []
   \<and> generateCaptionForItem plain_date [nova] (Some 1) ''tiktok'' stream_AB item_A = Inr []
   \<and> snd (generateCaptions plain_date ascii_case [nova] (Some 1) ''tiktok'' (Some stream_AB) no_captions) = []
   \<and> fst (generateCaptions plain_date ascii_case [nova] (Some 1) ''tiktok'' (Some stream_AB) no_captions)
        (entry_key item_A) = Some (Str [])
   \<and> fst (generateCaptions plain_date ascii_case [nova] (Some 1) ''tiktok'' (Some stream_AB) no_captions)
        (entry_key item_B) = Some (Str [])"
  by (simp add: recognised_platforms_def getDefaultTemplate_def default_templates_def obj_get_def
        object_prototype_keys_def or_empty_def truthy_def generateCaptionForItem_def
        resolve_template_def nova_def apply_variables_empty generateCaptions_def
        compute_captions_def stream_AB_def entry_key_def item_A_def item_B_def gown_def
        no_captions_def)

text \<open>
  C6 (as amended). For a platform key that is not one of the four (nor the name of a
  member every object inherits), nothing fails: \<open>getDefaultTemplate\<close> returns the
  empty string, and unless the selected agency has a non-empty template under the key,
  the render call succeeds with the empty string for every item of the record.
\<close>

theorem unknown_platform:
  assumes "selectedPlatform \<notin> set recognised_platforms"
    and "selectedPlatform \<notin> set object_prototype_keys"
  shows "getDefaultTemplate selectedPlatform = Str []
     \<and> (agency_template agencies selectedAgency selectedPlatform = None
          \<or> agency_template agencies selectedAgency selectedPlatform = Some [] \<longrightarrow>
        resolve_template agencies selectedAgency selectedPlatform = Str []
      \<and> generateCaptionForItem fmt agencies selectedAgency selectedPlatform sd it = Inr []
      \<and> (\<exists>m. generateCaptions fmt host agencies selectedAgency selectedPlatform (Some sd) old
                 = (m, [])
            \<and> dom m = entry_key ` set (items sd)
            \<and> (\<forall>it \<in> set (items sd). m (entry_key it) = Some (Str []))))"
proof (intro conjI impI)
  have own: "map_of default_templates selectedPlatform = None"
    using assms(1) by (simp add: default_templates_def recognised_platforms_def)
  then show d: "getDefaultTemplate selectedPlatform = Str []"
    using assms(2) by (simp add: getDefaultTemplate_def obj_get_def or_empty_def truthy_def)
  assume none: "agency_template agencies selectedAgency selectedPlatform = None
          \<or> agency_template agencies selectedAgency selectedPlatform = Some []"
  show r: "resolve_template agencies selectedAgency selectedPlatform = Str []"
  proof (cases selectedAgency)
    case None
    then show ?thesis using d by (simp add: resolve_template_def truthy_def)
  next
    case (Some n)
    show ?thesis
    proof (cases "find (\<lambda>a. agency_id a = n) agencies")
      case None
      with Some show ?thesis using d by (simp add: resolve_template_def truthy_def)
    next
      case (Some a)
      with none \<open>selectedAgency = Some n\<close>
      have "map_of (templates a) selectedPlatform = None
          \<or> map_of (templates a) selectedPlatform = Some []"
        by (simp add: agency_template_def)
      then have "or_empty (obj_get (templates a) selectedPlatform) = Str []"
        using assms(2) by (auto simp: obj_get_def or_empty_def truthy_def)
      with Some \<open>selectedAgency = Some n\<close> show ?thesis using d
        by (simp add: resolve_template_def truthy_def)
    qed
  qed
  let ?gen = "generateCaptionForItem fmt agencies selectedAgency selectedPlatform sd"
  have g: "?gen x = Inr []" for x
    using r by (simp add: generateCaptionForItem_def apply_variables_empty)
  show "?gen it = Inr []" by (rule g)
  have nf: "selectedPlatform \<noteq> ''imvu_feed''" "selectedPlatform \<noteq> ''ig_feed''"
    using assms(1) by (auto simp: recognised_platforms_def)
  from caption_each_total [of "items sd" ?gen "\<lambda>it. []" Map.empty] g obtain m where
    run: "caption_each ?gen (items sd) Map.empty = Inr m"
    and dm: "dom m = entry_key ` set (items sd)"
    and ents: "\<forall>it \<in> set (items sd). \<exists>it' \<in> set (items sd).
              entry_key it' = entry_key it \<and> m (entry_key it) = Some (Str [])"
    by auto
  have ent: "\<forall>it \<in> set (items sd). m (entry_key it) = Some (Str [])"
    using ents by auto
  have "generateCaptions fmt host agencies selectedAgency selectedPlatform (Some sd) old = (m, [])"
    using nf run by (simp add: generateCaptions_def compute_captions_def)
  with dm ent show "\<exists>m. generateCaptions fmt host agencies selectedAgency selectedPlatform (Some sd) old
                 = (m, [])
            \<and> dom m = entry_key ` set (items sd)
            \<and> (\<forall>it \<in> set (items sd). m (entry_key it) = Some (Str []))"
    by blast
qed

theorem unknown_platform_witness:
  "''tiktok'' \<notin> set recognised_platforms
   \<and> ''tiktok'' \<notin> set object_prototype_keys
   \<and> agency_template [nova] (Some 1) ''tiktok'' = None
   \<and> getDefaultTemplate ''tiktok'' = Str []
   \<and> resolve_template [nova] (Some 1) ''tiktok'' = Str []
   \<and> dom (fst (generateCaptions plain_date ascii_case [nova] (Some 1) ''tiktok'' (Some stream_AB)
                   no_captions))
       = {entry_key item_A, entry_key item_B}"
proof -
  have 1: "''tiktok'' \<notin> set recognised_platforms"
    by (simp add: recognised_platforms_def)
  have 2: "''tiktok'' \<notin> set object_prototype_keys"
    by (simp add: object_prototype_keys_def)
  have 3: "agency_template [nova] (Some 1) ''tiktok'' = None"
    by (simp add: agency_template_def nova_def)
  have its: "items stream_AB = [item_A, item_B]"
    by (simp add: stream_AB_def)
  note u = unknown_platform [OF 1 2, where agencies = "[nova]" and selectedAgency = "Some 1"
      and fmt = plain_date and host = ascii_case and sd = stream_AB and it = item_A
      and old = no_captions]
  from u 3 obtain m where "getDefaultTemplate ''tiktok'' = Str []"
    "resolve_template [nova] (Some 1) ''tiktok'' = Str []"
    "generateCaptions plain_date ascii_case [nova] (Some 1) ''tiktok'' (Some stream_AB) no_captions
       = (m, [])"
    "dom m = entry_key ` set (items stream_AB)"
    by auto
  then show ?thesis using 1 2 3 its by auto
qed

text \<open>
  A key that names a member every object inherits is not an unknown key to the lookup:
  the default \<^verbatim>\<open>template\<close> is then not a string, and rendering an item throws.
\<close>

lemma inherited_platform_key:
  assumes "selectedPlatform \<in> set object_prototype_keys"
  shows "getDefaultTemplate selectedPlatform = Inherited"
    and "generateCaptionForItem fmt agencies None selectedPlatform sd it = Inl TypeError"
proof -
  have "map_of default_templates selectedPlatform = None"
    using assms by (auto simp: default_templates_def object_prototype_keys_def)
  then show d: "getDefaultTemplate selectedPlatform = Inherited"
    using assms by (simp add: getDefaultTemplate_def obj_get_def or_empty_def truthy_def)
  then show "generateCaptionForItem fmt agencies None selectedPlatform sd it = Inl TypeError"
    by (simp add: generateCaptionForItem_def resolve_template_def truthy_def)
qed

end
